theory Spec2Isabelle
  imports Main "HOL-Library.Word" "HOL-Library.Sublist"
begin

section \<open>Go values that cross the doubles' interfaces\<close>

text \<open>
  The doubles of \<^verbatim>\<open>mocks.go\<close> hand every argument and every programmed result to the
  mocking substrate as an \<^verbatim>\<open>interface{}\<close> value. \<open>val\<close> is that universe: one
  constructor per dynamic type that occurs in the file. A slice is a \<open>list option\<close>
  (\<open>None\<close> is the nil slice), a pointer to a \<^verbatim>\<open>zk.Stat\<close> is a \<open>Stat option\<close>
  (\<open>None\<close> is the nil pointer), an \<^verbatim>\<open>error\<close> is a \<open>go_error option\<close>.
  A channel value has its direction in its dynamic type: \<open>VChan\<close> is a
  \<^verbatim>\<open>chan zk.Event\<close> (the type of the orchestrator's \<^verbatim>\<open>events\<close> field, and the type
  the doubles assert), \<open>VRecvChan\<close> is a \<^verbatim>\<open><-chan zk.Event\<close> (the type the doubles'
  signatures declare for the channel they return). \<open>VSlice\<close> is a \<^verbatim>\<open>[]interface{}\<close>,
  \<open>VOther\<close> a value of any other type, by the name of its type and its printed form.
\<close>

type_synonym int32 = "32 word"
type_synonym int64 = "64 word"
type_synonym bytes = "8 word list option"

record ACL =
  Perms :: int32
  Scheme :: string
  ID :: string

record Stat =
  Czxid :: int64
  Mzxid :: int64
  Ctime :: int64
  Mtime :: int64
  Version :: int32
  Cversion :: int32
  Aversion :: int32
  EphemeralOwner :: int64
  DataLength :: int32
  NumChildren :: int32
  Pzxid :: int64

datatype go_error = Error string

type_synonym error = "go_error option"

datatype MultiResponse = MultiResponse "Stat option" string

datatype chan = Chan nat

text \<open>
  The types \<^verbatim>\<open>reflect.TypeOf\<close> can report for a callback parameter: the ones
  \<^verbatim>\<open>Test\<close> compares against, the compression provider's interface, and
  \<open>T_other\<close> for every other type, by its printed name.
\<close>

datatype go_type =
    T_ptr_CuratorFrameworkBuilder
  | T_CuratorFramework
  | T_ZookeeperConnection
  | T_ptr_mockConn
  | T_ZookeeperDialer
  | T_ptr_mockZookeeperDialer
  | T_CompressionProvider
  | T_ptr_mockCompressionProvider
  | T_chan_zk_Event
  | T_ptr_sync_WaitGroup
  | T_other string

datatype val =
    VNil
  | VBool bool
  | VString string
  | VInt int
  | VInt32 int32
  | VDuration int64
  | VBytes bytes
  | VStrings "string list option"
  | VACLs "ACL list option"
  | VStat "Stat option"
  | VChan "chan option"
  | VRecvChan "chan option"
  | VError go_error
  | VMultiResponses "MultiResponse list option"
  | VSlice "val list option"
  | VConn nat
  | VClient nat
  | VEnsurePath nat
  | VType go_type
  | VOther string string

fun val_of_error :: "error \<Rightarrow> val" where
  "val_of_error None = VNil"
| "val_of_error (Some e) = VError e"

text \<open>The elements of a slice; the nil slice has none.\<close>

fun elems :: "'a list option \<Rightarrow> 'a list" where
  "elems None = []"
| "elems (Some xs) = xs"

section \<open>testing.T and the log hook\<close>

text \<open>
  \<^verbatim>\<open>type infof func(format string, args ...interface{})\<close>. A hook acts on the test's
  state; \<^verbatim>\<open>t.Logf\<close> appends a line, \<^verbatim>\<open>t.Errorf\<close> appends a line and marks the
  test failed without stopping it. Lines are kept as format and arguments.
\<close>

record testing_T =
  failed :: bool
  logged :: "(string \<times> val list) list"

type_synonym infof = "string \<Rightarrow> val list \<Rightarrow> testing_T \<Rightarrow> testing_T"

definition Logf :: infof where
  "Logf format args t = t\<lparr>logged := logged t @ [(format, args)]\<rparr>"

definition Errorf :: infof where
  "Errorf format args t = (Logf format args t)\<lparr>failed := True\<rparr>"

text \<open>\<^verbatim>\<open>if c.log != nil { c.log(format, args...) }\<close>\<close>

definition emit :: "infof option \<Rightarrow> string \<Rightarrow> val list \<Rightarrow> testing_T \<Rightarrow> testing_T" where
  "emit hook format args t = (case hook of None \<Rightarrow> t | Some f \<Rightarrow> f format args t)"

section \<open>The mocking substrate\<close>

text \<open>
  Panics and hard test failures, as values. A call that panics returns \<open>Inl\<close> of one
  of these; state changes made before the panic stay.
\<close>

datatype failure =
    Unprogrammed string "val list"
  | OverInvoked string "val list"
  | MissingReturn nat
  | WrongType string nat
  | TypeAssertion string
  | Crash
  | ReflectZeroValue
  | CloseOfClosedChannel
  | CallbackPanic string

definition bindR :: "failure + 'a \<Rightarrow> ('a \<Rightarrow> failure + 'b) \<Rightarrow> failure + 'b" where
  "bindR r f = (case r of Inl e \<Rightarrow> Inl e | Inr x \<Rightarrow> f x)"

text \<open>
  Modelled from the spec: the mocking substrate \<^verbatim>\<open>mock.Mock\<close> (package
  \<^verbatim>\<open>github.com/stretchr/testify/mock\<close>, imported by \<^verbatim>\<open>mocks.go\<close> and not part of its
  sources). An ExpectedCall "identifies an operation name + argument matcher, a canned
  return value set, a repetition policy (exactly-once, unlimited), and consumption
  count"; the table is "an ordered list of (matcher, result, repetition-policy) tuples
  consumed by a single next-matching-call lookup".
\<close>

datatype repetition = Unlimited | ExactlyOnce

record ExpectedCall =
  Method :: string
  Arguments :: "val list"
  ReturnArguments :: "val list"
  Repeatability :: repetition
  totalCalls :: nat

record Mock =
  ExpectedCalls :: "ExpectedCall list"
  Calls :: "(string \<times> val list) list"

text \<open>
  Modelled from the spec: \<^verbatim>\<open>On(name, args...)\<close> appends an expectation,
  \<^verbatim>\<open>.Return(...)\<close> and \<^verbatim>\<open>.Once()\<close> set the canned values and the repetition policy
  of the expectation just appended.
\<close>

definition On :: "'a Mock_scheme \<Rightarrow> string \<Rightarrow> val list \<Rightarrow> 'a Mock_scheme" where
  "On m methodName arguments =
     m\<lparr>ExpectedCalls := ExpectedCalls m @
       [\<lparr>Method = methodName, Arguments = arguments, ReturnArguments = [],
         Repeatability = Unlimited, totalCalls = 0\<rparr>]\<rparr>"

fun update_last :: "('a \<Rightarrow> 'a) \<Rightarrow> 'a list \<Rightarrow> 'a list" where
  "update_last f [] = []"
| "update_last f [x] = [f x]"
| "update_last f (x # y # ys) = x # update_last f (y # ys)"

definition Return :: "'a Mock_scheme \<Rightarrow> val list \<Rightarrow> 'a Mock_scheme" where
  "Return m returnArguments =
     m\<lparr>ExpectedCalls :=
       update_last (\<lambda>c. c\<lparr>ReturnArguments := returnArguments\<rparr>) (ExpectedCalls m)\<rparr>"

definition Once :: "'a Mock_scheme \<Rightarrow> 'a Mock_scheme" where
  "Once m =
     m\<lparr>ExpectedCalls := update_last (\<lambda>c. c\<lparr>Repeatability := ExactlyOnce\<rparr>) (ExpectedCalls m)\<rparr>"

text \<open>
  The substrate's argument matcher, \<^verbatim>\<open>Arguments.Diff\<close> of testify: position by
  position, an argument matches the programmed one when the two are structurally equal
  (\<^verbatim>\<open>ObjectsAreEqual\<close>) or when either of them is the wildcard \<^verbatim>\<open>mock.Anything\<close>,
  which is the string \<^verbatim>\<open>"mock.Anything"\<close>; where one list is shorter, its missing
  argument is compared as the string \<^verbatim>\<open>"(Missing)"\<close>. The substrate's typed matchers
  (\<^verbatim>\<open>AnythingOfType\<close>, \<^verbatim>\<open>MatchedBy\<close>) are values of its own types, which \<open>val\<close> does
  not have: an expectation programmed with one of them is outside this model.
\<close>

definition Anything :: val where
  "Anything = VString ''mock.Anything''"

definition Missing :: val where
  "Missing = VString ''(Missing)''"

definition arg_match :: "val \<Rightarrow> val \<Rightarrow> bool" where
  "arg_match expected actual = (expected = Anything \<or> actual = Anything \<or> actual = expected)"

fun args_match :: "val list \<Rightarrow> val list \<Rightarrow> bool" where
  "args_match [] [] = True"
| "args_match (e # es) [] = (arg_match e Missing \<and> args_match es [])"
| "args_match [] (a # as) = (arg_match Missing a \<and> args_match [] as)"
| "args_match (e # es) (a # as) = (arg_match e a \<and> args_match es as)"

text \<open>
  Modelled from the spec: the lookup "by operation name and arguments"; an exactly-once
  expectation that was consumed is exhausted.
\<close>

definition matches :: "ExpectedCall \<Rightarrow> string \<Rightarrow> val list \<Rightarrow> bool" where
  "matches e methodName arguments = (Method e = methodName \<and> args_match (Arguments e) arguments)"

definition exhausted :: "ExpectedCall \<Rightarrow> bool" where
  "exhausted e = (Repeatability e = ExactlyOnce \<and> 0 < totalCalls e)"

fun findExpectedCall :: "ExpectedCall list \<Rightarrow> string \<Rightarrow> val list \<Rightarrow> nat option" where
  "findExpectedCall [] methodName arguments = None"
| "findExpectedCall (e # es) methodName arguments =
     (if matches e methodName arguments \<and> \<not> exhausted e then Some 0
      else map_option Suc (findExpectedCall es methodName arguments))"

text \<open>
  Modelled from the spec: \<^verbatim>\<open>Called\<close>. "Every operation: (1) looks up a matching
  ExpectedCall by operation name and arguments, (2) fails the test immediately (hard
  assertion failure, not a recoverable error) if no match is programmed, (3) returns the
  canned result"; "a programmed-but-exhausted ExpectedCall is a hard test failure". A
  successful call is counted on its expectation and recorded in \<open>Calls\<close>.
\<close>

definition Called :: "'a Mock_scheme \<Rightarrow> string \<Rightarrow> val list \<Rightarrow> 'a Mock_scheme \<times> (failure + val list)" where
  "Called m methodName arguments =
     (case findExpectedCall (ExpectedCalls m) methodName arguments of
        None \<Rightarrow>
          (m, Inl (if list_ex (\<lambda>e. matches e methodName arguments) (ExpectedCalls m)
                   then OverInvoked methodName arguments
                   else Unprogrammed methodName arguments))
      | Some i \<Rightarrow>
          (m\<lparr>ExpectedCalls :=
               (ExpectedCalls m)[i := (ExpectedCalls m ! i)\<lparr>totalCalls := Suc (totalCalls (ExpectedCalls m ! i))\<rparr>],
             Calls := Calls m @ [(methodName, arguments)]\<rparr>,
           Inr (ReturnArguments (ExpectedCalls m ! i))))"

text \<open>
  The substrate's accessors on the canned values, as testify documents them:
  \<^verbatim>\<open>Get(i)\<close> panics when there is no value at the index; \<^verbatim>\<open>String(i)\<close> and
  \<^verbatim>\<open>Bool(i)\<close> panic when the value has another type; \<^verbatim>\<open>Error(i)\<close> returns nil for a
  nil value and panics for a value that is not an error.
\<close>

definition args_Get :: "val list \<Rightarrow> nat \<Rightarrow> failure + val" where
  "args_Get args i = (if i < length args then Inr (args ! i) else Inl (MissingReturn i))"

definition args_String :: "val list \<Rightarrow> nat \<Rightarrow> failure + string" where
  "args_String args i =
     bindR (args_Get args i) (\<lambda>v. case v of VString s \<Rightarrow> Inr s | _ \<Rightarrow> Inl (WrongType ''String'' i))"

definition args_Bool :: "val list \<Rightarrow> nat \<Rightarrow> failure + bool" where
  "args_Bool args i =
     bindR (args_Get args i) (\<lambda>v. case v of VBool b \<Rightarrow> Inr b | _ \<Rightarrow> Inl (WrongType ''Bool'' i))"

definition args_Error :: "val list \<Rightarrow> nat \<Rightarrow> failure + error" where
  "args_Error args i =
     bindR (args_Get args i)
       (\<lambda>v. case v of VNil \<Rightarrow> Inr None | VError e \<Rightarrow> Inr (Some e) | _ \<Rightarrow> Inl (WrongType ''Error'' i))"

text \<open>
  Go's checked type assertion with the flag dropped, \<^verbatim>\<open>x, _ := v.(T)\<close>: the value
  when its dynamic type is \<open>T\<close>, the zero value of \<open>T\<close> otherwise.
\<close>

fun as_bytes :: "val \<Rightarrow> bytes" where
  "as_bytes (VBytes b) = b"
| "as_bytes _ = None"

fun as_Stat :: "val \<Rightarrow> Stat option" where
  "as_Stat (VStat s) = s"
| "as_Stat _ = None"

fun as_chan :: "val \<Rightarrow> chan option" where
  "as_chan (VChan c) = c"
| "as_chan _ = None"

fun as_strings :: "val \<Rightarrow> string list option" where
  "as_strings (VStrings s) = s"
| "as_strings _ = None"

fun as_ACLs :: "val \<Rightarrow> ACL list option" where
  "as_ACLs (VACLs a) = a"
| "as_ACLs _ = None"

fun as_MultiResponses :: "val \<Rightarrow> MultiResponse list option" where
  "as_MultiResponses (VMultiResponses r) = r"
| "as_MultiResponses _ = None"

fun as_ZookeeperConnection :: "val \<Rightarrow> nat option" where
  "as_ZookeeperConnection (VConn n) = Some n"
| "as_ZookeeperConnection _ = None"

fun as_EnsurePath :: "val \<Rightarrow> nat option" where
  "as_EnsurePath (VEnsurePath n) = Some n"
| "as_EnsurePath _ = None"

text \<open>
  Go's unchecked type assertion \<^verbatim>\<open>v.([]zk.ACL)\<close>: it panics when the dynamic type is
  not \<^verbatim>\<open>[]zk.ACL\<close>, also for the nil interface value.
\<close>

fun assert_ACLs :: "val \<Rightarrow> failure + ACL list option" where
  "assert_ACLs (VACLs a) = Inr a"
| "assert_ACLs _ = Inl (TypeAssertion ''[]zk.ACL'')"

text \<open>
  The shape every double's method has: call the substrate, read the canned values, emit
  the trace line, return. A panic in the substrate or in an accessor ends the method
  there, with the state as it is at that point.
\<close>

definition respond ::
  "'c \<times> (failure + val list) \<Rightarrow> (val list \<Rightarrow> failure + 'r) \<Rightarrow> ('c \<Rightarrow> 'r \<Rightarrow> testing_T \<Rightarrow> testing_T) \<Rightarrow>
   testing_T \<Rightarrow> ('c \<times> testing_T) \<times> (failure + 'r)" where
  "respond called decode trace t =
     (case called of
        (c', Inl f) \<Rightarrow> ((c', t), Inl f)
      | (c', Inr args) \<Rightarrow>
          (case decode args of
             Inl f \<Rightarrow> ((c', t), Inl f)
           | Inr r \<Rightarrow> ((c', trace c' r t), Inr r)))"

definition silent :: "'c \<Rightarrow> 'r \<Rightarrow> testing_T \<Rightarrow> testing_T" where
  "silent c r t = t"

section \<open>The doubles\<close>

text \<open>
  Embedding \<^verbatim>\<open>mock.Mock\<close> in a struct is record extension: \<open>Called\<close>, \<open>On\<close>,
  \<open>Return\<close> and \<open>Once\<close> act on the embedded part of any double.
  \<^verbatim>\<open>struct { mock.Mock; log infof }\<close> is the dialer, the compression provider, the
  ensure-path double and its helper; the connection double adds \<open>operations\<close>; the
  closeable adds \<open>crash\<close>; the ACL provider, the tracer driver and the retry sleeper are
  a bare \<open>Mock\<close>.
\<close>

record mockCloseable = Mock +
  crash :: bool

record logging_Mock = Mock +
  log :: "infof option"

record mockConn = logging_Mock +
  operations :: "val list"

type_synonym mockTracerDriver = Mock
type_synonym mockRetrySleeper = Mock
type_synonym mockACLProvider = Mock
type_synonym mockZookeeperDialer = logging_Mock
type_synonym mockCompressionProvider = logging_Mock
type_synonym mockEnsurePath = logging_Mock
type_synonym mockEnsurePathHelper = logging_Mock

subsection \<open>mockCloseable, mockTracerDriver, mockRetrySleeper\<close>

definition mockCloseable_Close :: "mockCloseable \<Rightarrow> testing_T \<Rightarrow> (mockCloseable \<times> testing_T) \<times> (failure + error)" where
  "mockCloseable_Close c t =
     (if crash c then ((c, t), Inl Crash)
      else respond (Called c ''Close'' []) (\<lambda>args. args_Error args 0) silent t)"

definition mockTracerDriver_AddTime ::
  "mockTracerDriver \<Rightarrow> testing_T \<Rightarrow> string \<Rightarrow> int64 \<Rightarrow> (mockTracerDriver \<times> testing_T) \<times> (failure + unit)" where
  "mockTracerDriver_AddTime d t name dur =
     respond (Called d ''AddTime'' [VString name, VDuration dur]) (\<lambda>args. Inr ()) silent t"

definition mockTracerDriver_AddCount ::
  "mockTracerDriver \<Rightarrow> testing_T \<Rightarrow> string \<Rightarrow> int \<Rightarrow> (mockTracerDriver \<times> testing_T) \<times> (failure + unit)" where
  "mockTracerDriver_AddCount d t name increment =
     respond (Called d ''AddCount'' [VString name, VInt increment]) (\<lambda>args. Inr ()) silent t"

definition mockRetrySleeper_SleepFor ::
  "mockRetrySleeper \<Rightarrow> testing_T \<Rightarrow> int64 \<Rightarrow> (mockRetrySleeper \<times> testing_T) \<times> (failure + error)" where
  "mockRetrySleeper_SleepFor s t time =
     respond (Called s ''SleepFor'' [VDuration time]) (\<lambda>args. args_Error args 0) silent t"

subsection \<open>mockConn\<close>

definition mockConn_AddAuth ::
  "mockConn \<Rightarrow> testing_T \<Rightarrow> string \<Rightarrow> bytes \<Rightarrow> (mockConn \<times> testing_T) \<times> (failure + error)" where
  "mockConn_AddAuth c t scheme auth =
     respond (Called c ''AddAuth'' [VString scheme, VBytes auth]) (\<lambda>args. args_Error args 0) silent t"

definition mockConn_Close :: "mockConn \<Rightarrow> testing_T \<Rightarrow> (mockConn \<times> testing_T) \<times> (failure + unit)" where
  "mockConn_Close c t = respond (Called c ''Close'' []) (\<lambda>args. Inr ()) silent t"

definition mockConn_Create ::
  "mockConn \<Rightarrow> testing_T \<Rightarrow> string \<Rightarrow> bytes \<Rightarrow> int32 \<Rightarrow> ACL list option \<Rightarrow>
   (mockConn \<times> testing_T) \<times> (failure + string \<times> error)" where
  \<open>mockConn_Create c t path data flags acls =
     respond (Called c ''Create'' [VString path, VBytes data, VInt32 flags, VACLs acls])
       (\<lambda>args. bindR (args_String args 0) (\<lambda>createPath.
                bindR (args_Error args 1) (\<lambda>err. Inr (createPath, err))))
       (\<lambda>c' (createPath, err).
          emit (log c')
            ''Create(path="%s", data=[]byte("%s"), flags=%d, alcs=%v) (createdPath="%s", error=%v)''
            [VString path, VBytes data, VInt32 flags, VACLs acls, VString createPath, val_of_error err])
       t\<close>

definition mockConn_Exists ::
  "mockConn \<Rightarrow> testing_T \<Rightarrow> string \<Rightarrow> (mockConn \<times> testing_T) \<times> (failure + bool \<times> Stat option \<times> error)" where
  \<open>mockConn_Exists c t path =
     respond (Called c ''Exists'' [VString path])
       (\<lambda>args. bindR (args_Bool args 0) (\<lambda>exists.
                bindR (args_Get args 1) (\<lambda>v1.
                bindR (args_Error args 2) (\<lambda>err. Inr (exists, as_Stat v1, err)))))
       (\<lambda>c' (exists, stat, err).
          emit (log c') ''Exists(path="%s")(exists=%v, stat=%v, error=%v)''
            [VString path, VBool exists, VStat stat, val_of_error err])
       t\<close>

definition mockConn_ExistsW ::
  "mockConn \<Rightarrow> testing_T \<Rightarrow> string \<Rightarrow>
   (mockConn \<times> testing_T) \<times> (failure + bool \<times> Stat option \<times> chan option \<times> error)" where
  \<open>mockConn_ExistsW c t path =
     respond (Called c ''ExistsW'' [VString path])
       (\<lambda>args. bindR (args_Bool args 0) (\<lambda>exists.
                bindR (args_Get args 1) (\<lambda>v1.
                bindR (args_Get args 2) (\<lambda>v2.
                bindR (args_Error args 3) (\<lambda>err. Inr (exists, as_Stat v1, as_chan v2, err))))))
       (\<lambda>c' (exists, stat, events, err).
          emit (log c') ''ExistsW(path="%s")(exists=%v, stat=%v, events=%v, error=%v)''
            [VString path, VBool exists, VStat stat, VChan events, val_of_error err])
       t\<close>

definition mockConn_Delete ::
  "mockConn \<Rightarrow> testing_T \<Rightarrow> string \<Rightarrow> int32 \<Rightarrow> (mockConn \<times> testing_T) \<times> (failure + error)" where
  \<open>mockConn_Delete c t path version =
     respond (Called c ''Delete'' [VString path, VInt32 version])
       (\<lambda>args. args_Error args 0)
       (\<lambda>c' err.
          emit (log c') ''Delete(path="%s", version=%d) error=%v''
            [VString path, VInt32 version, val_of_error err])
       t\<close>

definition mockConn_Get ::
  "mockConn \<Rightarrow> testing_T \<Rightarrow> string \<Rightarrow> (mockConn \<times> testing_T) \<times> (failure + bytes \<times> Stat option \<times> error)" where
  "mockConn_Get c t path =
     respond (Called c ''Get'' [VString path])
       (\<lambda>args. bindR (args_Get args 0) (\<lambda>v0.
                bindR (args_Get args 1) (\<lambda>v1.
                bindR (args_Error args 2) (\<lambda>err. Inr (as_bytes v0, as_Stat v1, err)))))
       silent t"

definition mockConn_GetW ::
  "mockConn \<Rightarrow> testing_T \<Rightarrow> string \<Rightarrow>
   (mockConn \<times> testing_T) \<times> (failure + bytes \<times> Stat option \<times> chan option \<times> error)" where
  "mockConn_GetW c t path =
     respond (Called c ''GetW'' [VString path])
       (\<lambda>args. bindR (args_Get args 0) (\<lambda>v0.
                bindR (args_Get args 1) (\<lambda>v1.
                bindR (args_Get args 2) (\<lambda>v2.
                bindR (args_Error args 3) (\<lambda>err. Inr (as_bytes v0, as_Stat v1, as_chan v2, err))))))
       silent t"

definition mockConn_Set ::
  "mockConn \<Rightarrow> testing_T \<Rightarrow> string \<Rightarrow> bytes \<Rightarrow> int32 \<Rightarrow> (mockConn \<times> testing_T) \<times> (failure + Stat option \<times> error)" where
  "mockConn_Set c t path data version =
     respond (Called c ''Set'' [VString path, VBytes data, VInt32 version])
       (\<lambda>args. bindR (args_Get args 0) (\<lambda>v0.
                bindR (args_Error args 1) (\<lambda>err. Inr (as_Stat v0, err))))
       silent t"

definition mockConn_Children ::
  "mockConn \<Rightarrow> testing_T \<Rightarrow> string \<Rightarrow>
   (mockConn \<times> testing_T) \<times> (failure + string list option \<times> Stat option \<times> error)" where
  \<open>mockConn_Children c t path =
     respond (Called c ''Children'' [VString path])
       (\<lambda>args. bindR (args_Get args 0) (\<lambda>v0.
                bindR (args_Get args 1) (\<lambda>v1.
                bindR (args_Error args 2) (\<lambda>err. Inr (as_strings v0, as_Stat v1, err)))))
       (\<lambda>c' (children, stat, err).
          emit (log c') ''Children(path="%s")(children=%v, stat=%v, error=%v)''
            [VString path, VStrings children, VStat stat, val_of_error err])
       t\<close>

definition mockConn_ChildrenW ::
  "mockConn \<Rightarrow> testing_T \<Rightarrow> string \<Rightarrow>
   (mockConn \<times> testing_T) \<times> (failure + string list option \<times> Stat option \<times> chan option \<times> error)" where
  \<open>mockConn_ChildrenW c t path =
     respond (Called c ''ChildrenW'' [VString path])
       (\<lambda>args. bindR (args_Get args 0) (\<lambda>v0.
                bindR (args_Get args 1) (\<lambda>v1.
                bindR (args_Get args 2) (\<lambda>v2.
                bindR (args_Error args 3) (\<lambda>err. Inr (as_strings v0, as_Stat v1, as_chan v2, err))))))
       (\<lambda>c' (children, stat, events, err).
          emit (log c') ''ChildrenW(path="%s")(children=%v, stat=%v, events=%v, error=%v)''
            [VString path, VStrings children, VStat stat, VChan events, val_of_error err])
       t\<close>

definition mockConn_GetACL ::
  "mockConn \<Rightarrow> testing_T \<Rightarrow> string \<Rightarrow>
   (mockConn \<times> testing_T) \<times> (failure + ACL list option \<times> Stat option \<times> error)" where
  "mockConn_GetACL c t path =
     respond (Called c ''GetACL'' [VString path])
       (\<lambda>args. bindR (args_Get args 0) (\<lambda>v0.
                bindR (args_Get args 1) (\<lambda>v1.
                bindR (args_Error args 2) (\<lambda>err. Inr (as_ACLs v0, as_Stat v1, err)))))
       silent t"

definition mockConn_SetACL ::
  "mockConn \<Rightarrow> testing_T \<Rightarrow> string \<Rightarrow> ACL list option \<Rightarrow> int32 \<Rightarrow>
   (mockConn \<times> testing_T) \<times> (failure + Stat option \<times> error)" where
  "mockConn_SetACL c t path acls version =
     respond (Called c ''SetACL'' [VString path, VACLs acls, VInt32 version])
       (\<lambda>args. bindR (args_Get args 0) (\<lambda>v0.
                bindR (args_Error args 1) (\<lambda>err. Inr (as_Stat v0, err))))
       silent t"

text \<open>
  \<^verbatim>\<open>Multi\<close> appends its sub-operations to \<open>operations\<close> first and calls the substrate
  second, with the whole slice as the one argument. \<open>ops\<close> is the variadic parameter:
  the nil slice for \<^verbatim>\<open>Multi()\<close>, the slice of the arguments otherwise (an empty one
  for \<^verbatim>\<open>Multi(empty...)\<close>).
\<close>

definition mockConn_Multi ::
  "mockConn \<Rightarrow> testing_T \<Rightarrow> val list option \<Rightarrow>
   (mockConn \<times> testing_T) \<times> (failure + MultiResponse list option \<times> error)" where
  "mockConn_Multi c t ops =
     respond (Called (c\<lparr>operations := operations c @ elems ops\<rparr>) ''Multi'' [VSlice ops])
       (\<lambda>args. bindR (args_Get args 0) (\<lambda>v0.
                bindR (args_Error args 1) (\<lambda>err. Inr (as_MultiResponses v0, err))))
       (\<lambda>c' (res, err).
          emit (log c') ''Multi(ops=%v)(responses=%v, error=%v)''
            [VSlice ops, VMultiResponses res, val_of_error err])
       t"

definition mockConn_Sync ::
  "mockConn \<Rightarrow> testing_T \<Rightarrow> string \<Rightarrow> (mockConn \<times> testing_T) \<times> (failure + string \<times> error)" where
  "mockConn_Sync c t path =
     respond (Called c ''Sync'' [VString path])
       (\<lambda>args. bindR (args_String args 0) (\<lambda>s.
                bindR (args_Error args 1) (\<lambda>err. Inr (s, err))))
       silent t"

text \<open>
  One request per method of the connection double, and one response per result shape,
  so that a statement can range over every operation.
\<close>

datatype conn_request =
    Req_AddAuth string bytes
  | Req_Close
  | Req_Create string bytes int32 "ACL list option"
  | Req_Exists string
  | Req_ExistsW string
  | Req_Delete string int32
  | Req_Get string
  | Req_GetW string
  | Req_Set string bytes int32
  | Req_Children string
  | Req_ChildrenW string
  | Req_GetACL string
  | Req_SetACL string "ACL list option" int32
  | Req_Multi "val list option"
  | Req_Sync string

datatype conn_response =
    Res_AddAuth error
  | Res_Close
  | Res_Create "string \<times> error"
  | Res_Exists "bool \<times> Stat option \<times> error"
  | Res_ExistsW "bool \<times> Stat option \<times> chan option \<times> error"
  | Res_Delete error
  | Res_Get "bytes \<times> Stat option \<times> error"
  | Res_GetW "bytes \<times> Stat option \<times> chan option \<times> error"
  | Res_Set "Stat option \<times> error"
  | Res_Children "string list option \<times> Stat option \<times> error"
  | Res_ChildrenW "string list option \<times> Stat option \<times> chan option \<times> error"
  | Res_GetACL "ACL list option \<times> Stat option \<times> error"
  | Res_SetACL "Stat option \<times> error"
  | Res_Multi "MultiResponse list option \<times> error"
  | Res_Sync "string \<times> error"

definition tag :: "('r \<Rightarrow> 'q) \<Rightarrow> 's \<times> (failure + 'r) \<Rightarrow> 's \<times> (failure + 'q)" where
  "tag f x = (fst x, map_sum id f (snd x))"

fun conn_call :: "mockConn \<Rightarrow> testing_T \<Rightarrow> conn_request \<Rightarrow> (mockConn \<times> testing_T) \<times> (failure + conn_response)" where
  "conn_call c t (Req_AddAuth scheme auth) = tag Res_AddAuth (mockConn_AddAuth c t scheme auth)"
| "conn_call c t Req_Close = tag (\<lambda>u. Res_Close) (mockConn_Close c t)"
| "conn_call c t (Req_Create path data flags acls) = tag Res_Create (mockConn_Create c t path data flags acls)"
| "conn_call c t (Req_Exists path) = tag Res_Exists (mockConn_Exists c t path)"
| "conn_call c t (Req_ExistsW path) = tag Res_ExistsW (mockConn_ExistsW c t path)"
| "conn_call c t (Req_Delete path version) = tag Res_Delete (mockConn_Delete c t path version)"
| "conn_call c t (Req_Get path) = tag Res_Get (mockConn_Get c t path)"
| "conn_call c t (Req_GetW path) = tag Res_GetW (mockConn_GetW c t path)"
| "conn_call c t (Req_Set path data version) = tag Res_Set (mockConn_Set c t path data version)"
| "conn_call c t (Req_Children path) = tag Res_Children (mockConn_Children c t path)"
| "conn_call c t (Req_ChildrenW path) = tag Res_ChildrenW (mockConn_ChildrenW c t path)"
| "conn_call c t (Req_GetACL path) = tag Res_GetACL (mockConn_GetACL c t path)"
| "conn_call c t (Req_SetACL path acls version) = tag Res_SetACL (mockConn_SetACL c t path acls version)"
| "conn_call c t (Req_Multi ops) = tag Res_Multi (mockConn_Multi c t ops)"
| "conn_call c t (Req_Sync path) = tag Res_Sync (mockConn_Sync c t path)"

text \<open>
  A sequence of invocations on one double. Each runs on the state the previous one left,
  whatever its outcome: a panic of the substrate does not undo what ran before it.
\<close>

fun conn_calls :: "mockConn \<Rightarrow> testing_T \<Rightarrow> conn_request list \<Rightarrow> mockConn \<times> testing_T" where
  "conn_calls c t [] = (c, t)"
| "conn_calls c t (r # rs) =
     (case fst (conn_call c t r) of (c', t') \<Rightarrow> conn_calls c' t' rs)"

fun sub_operations :: "conn_request \<Rightarrow> val list" where
  "sub_operations (Req_Multi ops) = elems ops"
| "sub_operations _ = []"

subsection \<open>mockZookeeperDialer, mockCompressionProvider, mockACLProvider\<close>

definition mockZookeeperDialer_Dial ::
  "mockZookeeperDialer \<Rightarrow> testing_T \<Rightarrow> string \<Rightarrow> int64 \<Rightarrow> bool \<Rightarrow>
   (mockZookeeperDialer \<times> testing_T) \<times> (failure + nat option \<times> chan option \<times> error)" where
  \<open>mockZookeeperDialer_Dial d t connString sessionTimeout canBeReadOnly =
     respond (Called d ''Dial'' [VString connString, VDuration sessionTimeout, VBool canBeReadOnly])
       (\<lambda>args. bindR (args_Get args 0) (\<lambda>v0.
                bindR (args_Get args 1) (\<lambda>v1.
                bindR (args_Error args 2) (\<lambda>err. Inr (as_ZookeeperConnection v0, as_chan v1, err)))))
       (\<lambda>d' (conn, events, err).
          emit (log d')
            ''Dial(connectString="%s", sessionTimeout=%v, canBeReadOnly=%v)(conn=%p, events=%v, error=%v)''
            [VString connString, VDuration sessionTimeout, VBool canBeReadOnly,
             (case conn of None \<Rightarrow> VNil | Some n \<Rightarrow> VConn n), VChan events, val_of_error err])
       t\<close>

definition mockCompressionProvider_Compress ::
  "mockCompressionProvider \<Rightarrow> testing_T \<Rightarrow> string \<Rightarrow> bytes \<Rightarrow>
   (mockCompressionProvider \<times> testing_T) \<times> (failure + bytes \<times> error)" where
  \<open>mockCompressionProvider_Compress p t path data =
     respond (Called p ''Compress'' [VString path, VBytes data])
       (\<lambda>args. bindR (args_Get args 0) (\<lambda>v0.
                bindR (args_Error args 1) (\<lambda>err. Inr (as_bytes v0, err))))
       (\<lambda>p' (compressedData, err).
          emit (log p') ''Compress(path="%s", data=[]byte("%s"))(compressedData=[]byte("%s"), error=%v)''
            [VString path, VBytes data, VBytes compressedData, val_of_error err])
       t\<close>

definition mockCompressionProvider_Decompress ::
  "mockCompressionProvider \<Rightarrow> testing_T \<Rightarrow> string \<Rightarrow> bytes \<Rightarrow>
   (mockCompressionProvider \<times> testing_T) \<times> (failure + bytes \<times> error)" where
  \<open>mockCompressionProvider_Decompress p t path compressedData =
     respond (Called p ''Decompress'' [VString path, VBytes compressedData])
       (\<lambda>args. bindR (args_Get args 0) (\<lambda>v0.
                bindR (args_Error args 1) (\<lambda>err. Inr (as_bytes v0, err))))
       (\<lambda>p' (data, err).
          emit (log p') ''Decompress(path="%s", compressedData=[]byte("%s"))(data=[]byte("%s"), error=%v)''
            [VString path, VBytes compressedData, VBytes data, val_of_error err])
       t\<close>

definition mockACLProvider_GetDefaultAcl ::
  "mockACLProvider \<Rightarrow> testing_T \<Rightarrow> (mockACLProvider \<times> testing_T) \<times> (failure + ACL list option)" where
  "mockACLProvider_GetDefaultAcl p t =
     respond (Called p ''GetDefaultAcl'' [])
       (\<lambda>args. bindR (args_Get args 0) assert_ACLs) silent t"

definition mockACLProvider_GetAclForPath ::
  "mockACLProvider \<Rightarrow> testing_T \<Rightarrow> string \<Rightarrow> (mockACLProvider \<times> testing_T) \<times> (failure + ACL list option)" where
  "mockACLProvider_GetAclForPath p t path =
     respond (Called p ''GetAclForPath'' [VString path])
       (\<lambda>args. bindR (args_Get args 0) assert_ACLs) silent t"

subsection \<open>mockEnsurePath, mockEnsurePathHelper\<close>

definition mockEnsurePath_Ensure ::
  "mockEnsurePath \<Rightarrow> testing_T \<Rightarrow> nat \<Rightarrow> (mockEnsurePath \<times> testing_T) \<times> (failure + error)" where
  "mockEnsurePath_Ensure e t client =
     respond (Called e ''Ensure'' [VClient client])
       (\<lambda>args. args_Error args 0)
       (\<lambda>e' err. emit (log e') ''Ensure(client=%p) error=%v'' [VClient client, val_of_error err])
       t"

definition mockEnsurePath_ExcludingLast ::
  "mockEnsurePath \<Rightarrow> testing_T \<Rightarrow> (mockEnsurePath \<times> testing_T) \<times> (failure + nat option)" where
  "mockEnsurePath_ExcludingLast e t =
     respond (Called e ''ExcludingLast'' [])
       (\<lambda>args. bindR (args_Get args 0) (\<lambda>v0. Inr (as_EnsurePath v0)))
       (\<lambda>e' ret.
          emit (log e') ''ExcludingLast() EnsurePath=%p''
            [case ret of None \<Rightarrow> VNil | Some n \<Rightarrow> VEnsurePath n])
       t"

definition mockEnsurePathHelper_Ensure ::
  "mockEnsurePathHelper \<Rightarrow> testing_T \<Rightarrow> nat \<Rightarrow> string \<Rightarrow> bool \<Rightarrow>
   (mockEnsurePathHelper \<times> testing_T) \<times> (failure + error)" where
  \<open>mockEnsurePathHelper_Ensure h t client path makeLastNode =
     respond (Called h ''Ensure'' [VClient client, VString path, VBool makeLastNode])
       (\<lambda>args. args_Error args 0)
       (\<lambda>h' err.
          emit (log h') ''Ensure(client=%p, path="%s", makeLastNode=%v) error=%v''
            [VClient client, VString path, VBool makeLastNode, val_of_error err])
       t\<close>

section \<open>The orchestrator\<close>

subsection \<open>Configuration and harness state\<close>

text \<open>
  Modelled from the spec: the configuration aggregate \<^verbatim>\<open>CuratorFrameworkBuilder\<close> and
  the fixed address resolver, both declared outside \<^verbatim>\<open>mocks.go\<close>. "ClientConfiguration:
  aggregate holding the dialer, the ensemble/address resolver, the compression provider,
  the retry policy, default payload bytes, and an optional namespace prefix". The fields
  are the ones \<^verbatim>\<open>mocks.go\<close> sets or reads; the dialer and compression provider fields
  are pointers to the harness's own doubles and are read from the harness state.
\<close>

record fixedEnsembleProvider =
  connectString :: string

datatype RetryPolicy = RetryOneTime int64

record CuratorFrameworkBuilder =
  EnsembleProvider :: fixedEnsembleProvider
  RetryPolicy :: RetryPolicy
  DefaultData :: bytes
  Namespace :: string
  CanBeReadOnly :: bool

definition ConnectionString :: "fixedEnsembleProvider \<Rightarrow> string" where
  "ConnectionString p = connectString p"

text \<open>
  \<^verbatim>\<open>mockZookeeperClient\<close>. \<open>events\<close> is the channel's identity and \<open>events_closed\<close>
  its state; \<open>wg\<close> is the counter of the \<^verbatim>\<open>sync.WaitGroup\<close>.
\<close>

record mockZookeeperClient =
  conn :: mockConn
  dialer :: mockZookeeperDialer
  compress :: mockCompressionProvider
  builder :: CuratorFrameworkBuilder
  events :: chan
  events_closed :: bool
  wg :: int

definition newMockZookeeperClient :: mockZookeeperClient where
  "newMockZookeeperClient =
     \<lparr>conn = \<lparr>ExpectedCalls = [], Calls = [], log = None, operations = []\<rparr>,
      dialer = \<lparr>ExpectedCalls = [], Calls = [], log = None\<rparr>,
      compress = \<lparr>ExpectedCalls = [], Calls = [], log = None\<rparr>,
      builder =
        \<lparr>EnsembleProvider = \<lparr>connectString = ''connectString''\<rparr>,
         RetryPolicy = RetryOneTime 0,
         DefaultData = Some [0x64, 0x65, 0x66, 0x61, 0x75, 0x6C, 0x74],
         Namespace = [],
         CanBeReadOnly = False\<rparr>,
      events = Chan 0,
      events_closed = False,
      wg = 0\<rparr>"

definition WithNamespace :: "mockZookeeperClient \<Rightarrow> string \<Rightarrow> mockZookeeperClient" where
  "WithNamespace c namespace = c\<lparr>builder := (builder c)\<lparr>Namespace := namespace\<rparr>\<rparr>"

subsection \<open>The client under test\<close>

text \<open>
  The client framework (\<^verbatim>\<open>Build\<close> of the builder, \<^verbatim>\<open>Start\<close> and \<^verbatim>\<open>Close\<close> of the
  client) is defined outside \<^verbatim>\<open>mocks.go\<close>. The client holds pointers to the harness's
  doubles, so each of its operations is a function on the harness and the test's state
  that returns or panics. \<^verbatim>\<open>Test\<close> below is written over any three such operations,
  and the orchestrator of the repository is \<^verbatim>\<open>Test\<close> with the framework's operations
  as the specification describes them.
\<close>

record CuratorFramework =
  config :: CuratorFrameworkBuilder

type_synonym build_operation =
  "CuratorFrameworkBuilder \<Rightarrow> mockZookeeperClient \<Rightarrow> testing_T \<Rightarrow>
   (mockZookeeperClient \<times> testing_T) \<times> (failure + CuratorFramework)"

type_synonym client_operation =
  "CuratorFramework \<Rightarrow> mockZookeeperClient \<Rightarrow> testing_T \<Rightarrow>
   (mockZookeeperClient \<times> testing_T) \<times> (failure + error)"

text \<open>
  A dial by the client, through the harness's dialer double, with the given three
  arguments; the client returns the dial's error.
\<close>

definition client_dial ::
  "string \<Rightarrow> int64 \<Rightarrow> bool \<Rightarrow> mockZookeeperClient \<Rightarrow> testing_T \<Rightarrow>
   (mockZookeeperClient \<times> testing_T) \<times> (failure + error)" where
  "client_dial connString sessionTimeout canBeReadOnly c t =
     (case mockZookeeperDialer_Dial (dialer c) t connString sessionTimeout canBeReadOnly of
        ((d', t'), Inl f) \<Rightarrow> ((c\<lparr>dialer := d'\<rparr>, t'), Inl f)
      | ((d', t'), Inr (cn, ev, err)) \<Rightarrow> ((c\<lparr>dialer := d'\<rparr>, t'), Inr err))"

text \<open>
  Modelled from the spec: the client framework's build, start and close operations, which
  \<^verbatim>\<open>Test\<close> calls and which are defined outside \<^verbatim>\<open>mocks.go\<close>. "builds the client from
  the configuration. Build must not itself dial"; "client lifecycle start triggers exactly
  one dial", with "the connect string the configuration's address resolver would
  produce, the harness's fixed default session timeout, and the configuration's
  read-only flag"; "orchestrator shuts the client down (triggering exactly one connection
  close)". The default timeout is the constant \<^verbatim>\<open>DEFAULT_CONNECTION_TIMEOUT\<close>, declared
  outside \<^verbatim>\<open>mocks.go\<close>: a parameter here.
\<close>

definition Build :: "CuratorFrameworkBuilder \<Rightarrow> CuratorFramework" where
  "Build b = \<lparr>config = b\<rparr>"

definition client_Build :: build_operation where
  "client_Build b c t = ((c, t), Inr (Build b))"

definition client_Start :: "int64 \<Rightarrow> client_operation" where
  "client_Start DEFAULT_CONNECTION_TIMEOUT client c t =
     client_dial (ConnectionString (EnsembleProvider (config client)))
       DEFAULT_CONNECTION_TIMEOUT (CanBeReadOnly (config client)) c t"

definition client_Close :: client_operation where
  "client_Close client c t =
     (case mockConn_Close (conn c) t of
        ((cn', t'), Inl f) \<Rightarrow> ((c\<lparr>conn := cn'\<rparr>, t'), Inl f)
      | ((cn', t'), Inr u) \<Rightarrow> ((c\<lparr>conn := cn'\<rparr>, t'), Inr None))"

subsection \<open>Assertions of the test library\<close>

text \<open>
  \<^verbatim>\<open>assert.NoError(t, err)\<close> reports a non-nil error through \<^verbatim>\<open>t.Errorf\<close> and lets
  the test go on.
\<close>

definition assert_NoError :: "testing_T \<Rightarrow> error \<Rightarrow> testing_T" where
  "assert_NoError t err =
     (case err of None \<Rightarrow> t | Some e \<Rightarrow> Errorf ''Received unexpected error: %+v'' [VError e] t)"

text \<open>
  Modelled from the spec: \<^verbatim>\<open>AssertExpectations\<close> of the mocking substrate. "asserts
  every double has no remaining or violated expectations. Any violation fails the test
  with a description of the unmet expectation." As testify has it, an expectation is
  unmet when no recorded call has its name and arguments that its own match, or when it
  was programmed for exactly one call and that call has not come; one report is made
  for the double, through \<^verbatim>\<open>t.Errorf\<close>. The lines the substrate logs for the single
  expectations are left out.
\<close>

definition methodWasCalled :: "'a Mock_scheme \<Rightarrow> string \<Rightarrow> val list \<Rightarrow> bool" where
  "methodWasCalled m methodName expectedArgs =
     list_ex (\<lambda>call. fst call = methodName \<and> args_match expectedArgs (snd call)) (Calls m)"

definition unmet :: "'a Mock_scheme \<Rightarrow> ExpectedCall \<Rightarrow> bool" where
  "unmet m e =
     (if methodWasCalled m (Method e) (Arguments e)
      then Repeatability e = ExactlyOnce \<and> totalCalls e = 0
      else True)"

definition AssertExpectations :: "'a Mock_scheme \<Rightarrow> testing_T \<Rightarrow> testing_T" where
  "AssertExpectations m t =
     (if list_ex (unmet m) (ExpectedCalls m)
      then Errorf ''FAIL: %d out of %d expectation(s) were met''
             [VInt (int (length (filter (\<lambda>e. \<not> unmet m e) (ExpectedCalls m)))),
              VInt (int (length (ExpectedCalls m)))] t
      else t)"

subsection \<open>The callback\<close>

text \<open>
  The callback is any Go function: \<open>params\<close> is what \<^verbatim>\<open>reflect.TypeOf(callback)\<close>
  reports, \<open>body\<close> is what calling it does to the harness and the test. It has the
  pointers it was handed, so it may change any of that state; it returns, with the steps
  of the background work it started, or it panics. A callback value that is not a
  function (line 390 reports it, and \<^verbatim>\<open>NumIn\<close> panics on it) is not modelled.
\<close>

datatype arg =
    Arg_builder
  | Arg_client CuratorFramework
  | Arg_conn
  | Arg_dialer
  | Arg_compress
  | Arg_events chan
  | Arg_wg

datatype cb_result =
    Returned mockZookeeperClient testing_T "(mockZookeeperClient \<times> testing_T \<Rightarrow> mockZookeeperClient \<times> testing_T) list"
  | Panicked mockZookeeperClient testing_T failure

record callback =
  params :: "go_type list"
  body :: "arg list \<Rightarrow> mockZookeeperClient \<Rightarrow> testing_T \<Rightarrow> cb_result"

subsection \<open>Test\<close>

text \<open>
  What a run leaves: the harness, the test's state, how it ended, and the orchestrator's
  own statements in the order they completed. \<open>steps\<close> is not data of the program; it
  is kept so that statements about order can be made. \<open>CallbackInvoked\<close> marks the
  moment the callback's body starts.
\<close>

datatype step =
    SetLogHooks
  | BuildClient
  | ProgramDial
  | StartClient
  | RegisterPending
  | ReportUnknownType
  | CallbackInvoked
  | CallbackReturned
  | AwaitCompletion
  | ProgramClose
  | CloseClient
  | CloseEvents
  | AssertAll

datatype outcome = Completed | Aborted failure | Blocked

record run =
  mzc :: mockZookeeperClient
  tT :: testing_T
  steps :: "step list"
  outcome :: outcome

text \<open>The state of the loop over the callback's parameters (lines 392 to 424).\<close>

record frame =
  f_args :: "arg option list"
  f_c :: mockZookeeperClient
  f_t :: testing_T
  f_waiting :: bool
  f_steps :: "step list"

text \<open>
  The \<^verbatim>\<open>switch\<close> on the parameter's type, case by case in the source's order. The
  fifth case lists the dialer's interface type again, then the compression double's
  pointer type. A zero \<^verbatim>\<open>reflect.Value\<close> is \<open>None\<close>.
\<close>

definition resolve_slot :: "CuratorFramework \<Rightarrow> nat \<Rightarrow> go_type \<Rightarrow> frame \<Rightarrow> frame" where
  "resolve_slot client i argType fr =
     (if argType = T_ptr_CuratorFrameworkBuilder then
        fr\<lparr>f_args := (f_args fr)[i := Some Arg_builder]\<rparr>
      else if argType = T_CuratorFramework then
        fr\<lparr>f_args := (f_args fr)[i := Some (Arg_client client)]\<rparr>
      else if argType = T_ZookeeperConnection \<or> argType = T_ptr_mockConn then
        fr\<lparr>f_args := (f_args fr)[i := Some Arg_conn]\<rparr>
      else if argType = T_ZookeeperDialer \<or> argType = T_ptr_mockZookeeperDialer then
        fr\<lparr>f_args := (f_args fr)[i := Some Arg_dialer]\<rparr>
      else if argType = T_ZookeeperDialer \<or> argType = T_ptr_mockCompressionProvider then
        fr\<lparr>f_args := (f_args fr)[i := Some Arg_compress]\<rparr>
      else if argType = T_chan_zk_Event then
        fr\<lparr>f_args := (f_args fr)[i := Some (Arg_events (events (f_c fr)))]\<rparr>
      else if argType = T_ptr_sync_WaitGroup then
        fr\<lparr>f_args := (f_args fr)[i := Some Arg_wg],
           f_c := (f_c fr)\<lparr>wg := wg (f_c fr) + 1\<rparr>,
           f_waiting := True,
           f_steps := f_steps fr @ [RegisterPending]\<rparr>
      else
        fr\<lparr>f_t := Errorf ''unknown arg type: %s'' [VType argType] (f_t fr),
           f_steps := f_steps fr @ [ReportUnknownType]\<rparr>)"

fun resolve :: "CuratorFramework \<Rightarrow> nat \<Rightarrow> go_type list \<Rightarrow> frame \<Rightarrow> frame" where
  "resolve client i [] fr = fr"
| "resolve client i (argType # rest) fr = resolve client (Suc i) rest (resolve_slot client i argType fr)"

text \<open>
  \<^verbatim>\<open>c.wg.Wait()\<close> returns once the counter is zero. While the orchestrator is blocked,
  the steps of the background work run, in their order; when they are used up and the
  counter is not zero, the wait never returns (the flag is \<open>False\<close>). Other
  interleavings of the background work with the orchestrator, and the panic of
  \<^verbatim>\<open>Done\<close> on a counter that is zero, are not modelled.
\<close>

fun wg_Wait ::
  "(mockZookeeperClient \<times> testing_T \<Rightarrow> mockZookeeperClient \<times> testing_T) list \<Rightarrow>
   mockZookeeperClient \<times> testing_T \<Rightarrow> bool \<times> mockZookeeperClient \<times> testing_T" where
  "wg_Wait [] s = (wg (fst s) = 0, s)"
| "wg_Wait (b # bs) s = (if wg (fst s) = 0 then (True, s) else wg_Wait bs (b s))"

text \<open>\<^verbatim>\<open>close(c.events)\<close>: closing a closed channel panics.\<close>

definition close_events :: "mockZookeeperClient \<Rightarrow> failure + mockZookeeperClient" where
  "close_events c =
     (if events_closed c then Inl CloseOfClosedChannel else Inr (c\<lparr>events_closed := True\<rparr>))"

text \<open>
  Lines 432 to 440, for any close operation of the client: the \<^verbatim>\<open>Close\<close> expectation
  is programmed on the connection double, the client is closed, its error (if any) is
  reported, the event channel is closed, and the three doubles are asked for unmet
  expectations.
\<close>

definition Test_teardown_with ::
  "client_operation \<Rightarrow> CuratorFramework \<Rightarrow> mockZookeeperClient \<Rightarrow> testing_T \<Rightarrow> step list \<Rightarrow> run" where
  "Test_teardown_with close client c t done =
     (let c1 = c\<lparr>conn := Once (Return (On (conn c) ''Close'' []) [])\<rparr> in
      case close client c1 t of
        ((c2, t2), Inl f) \<Rightarrow>
          \<lparr>mzc = c2, tT = t2, steps = done @ [ProgramClose], outcome = Aborted f\<rparr>
      | ((c2, t2), Inr err) \<Rightarrow>
          (case close_events c2 of
             Inl f \<Rightarrow>
               \<lparr>mzc = c2, tT = assert_NoError t2 err,
                steps = done @ [ProgramClose, CloseClient], outcome = Aborted f\<rparr>
           | Inr c3 \<Rightarrow>
               \<lparr>mzc = c3,
                tT = AssertExpectations (compress c3)
                       (AssertExpectations (dialer c3)
                         (AssertExpectations (conn c3) (assert_NoError t2 err))),
                steps = done @ [ProgramClose, CloseClient, CloseEvents, AssertAll],
                outcome = Completed\<rparr>))"

text \<open>
  Lines 426 to 430. \<^verbatim>\<open>reflect.Value.Call\<close> panics on a zero \<^verbatim>\<open>Value\<close> among the
  arguments, before the function is entered.
\<close>

definition Test_call_with :: "client_operation \<Rightarrow> CuratorFramework \<Rightarrow> callback \<Rightarrow> frame \<Rightarrow> run" where
  "Test_call_with close client cb fr =
     (case those (f_args fr) of
        None \<Rightarrow>
          \<lparr>mzc = f_c fr, tT = f_t fr, steps = f_steps fr, outcome = Aborted ReflectZeroValue\<rparr>
      | Some args \<Rightarrow>
          (case body cb args (f_c fr) (f_t fr) of
             Panicked c' t' f \<Rightarrow>
               \<lparr>mzc = c', tT = t', steps = f_steps fr @ [CallbackInvoked], outcome = Aborted f\<rparr>
           | Returned c' t' background \<Rightarrow>
               (if f_waiting fr then
                  (case wg_Wait background (c', t') of
                     (False, c'', t'') \<Rightarrow>
                       \<lparr>mzc = c'', tT = t'',
                        steps = f_steps fr @ [CallbackInvoked, CallbackReturned], outcome = Blocked\<rparr>
                   | (True, c'', t'') \<Rightarrow>
                       Test_teardown_with close client c'' t''
                         (f_steps fr @ [CallbackInvoked, CallbackReturned, AwaitCompletion]))
                else Test_teardown_with close client c' t'
                       (f_steps fr @ [CallbackInvoked, CallbackReturned]))))"

text \<open>Lines 378 to 380: the three log hooks are set to \<^verbatim>\<open>t.Logf\<close>.\<close>

definition Test_hooks :: "mockZookeeperClient \<Rightarrow> mockZookeeperClient" where
  "Test_hooks c =
     c\<lparr>conn := (conn c)\<lparr>log := Some Logf\<rparr>,
       dialer := (dialer c)\<lparr>log := Some Logf\<rparr>,
       compress := (compress c)\<lparr>log := Some Logf\<rparr>\<rparr>"

text \<open>
  Line 384: the expected dial, programmed on the dialer double with its canned results
  (the connection double, the event channel, no error) for exactly one call.
\<close>

definition Test_program :: "int64 \<Rightarrow> mockZookeeperClient \<Rightarrow> mockZookeeperClient" where
  "Test_program DEFAULT_CONNECTION_TIMEOUT c =
     c\<lparr>dialer :=
         Once (Return
           (On (dialer c) ''Dial''
              [VString (ConnectionString (EnsembleProvider (builder c))),
               VDuration DEFAULT_CONNECTION_TIMEOUT,
               VBool (CanBeReadOnly (builder c))])
           [VConn 0, VChan (Some (events c)), VNil])\<rparr>"

text \<open>
  Lines 378 to 386 of \<^verbatim>\<open>Test\<close>, for any build and start operation: the hooks are set,
  the client is built from the builder at line 382, the dial is programmed at line 384
  on the state the build left, the client is started at line 386. A panic of the build
  or of the start ends it there. The result carries the statements that completed.
\<close>

definition Test_start_with ::
  "build_operation \<Rightarrow> client_operation \<Rightarrow> int64 \<Rightarrow> mockZookeeperClient \<Rightarrow> testing_T \<Rightarrow>
   (mockZookeeperClient \<times> testing_T) \<times> step list \<times> (failure + CuratorFramework \<times> error)" where
  "Test_start_with build start DEFAULT_CONNECTION_TIMEOUT c t =
     (let c1 = Test_hooks c in
      case build (builder c1) c1 t of
        ((c2, t2), Inl f) \<Rightarrow> ((c2, t2), [SetLogHooks], Inl f)
      | ((c2, t2), Inr client) \<Rightarrow>
          (case start client (Test_program DEFAULT_CONNECTION_TIMEOUT c2) t2 of
             ((c3, t3), Inl f) \<Rightarrow> ((c3, t3), [SetLogHooks, BuildClient, ProgramDial], Inl f)
           | ((c3, t3), Inr err) \<Rightarrow>
               ((c3, t3), [SetLogHooks, BuildClient, ProgramDial, StartClient], Inr (client, err))))"

text \<open>
  Lines 378 to 424: a panic of the build or of the start ends the run; otherwise the
  start's error, if any, is reported and the callback's parameters are resolved into a
  slice of zero values.
\<close>

definition Test_setup_with ::
  "build_operation \<Rightarrow> client_operation \<Rightarrow> int64 \<Rightarrow> mockZookeeperClient \<Rightarrow> testing_T \<Rightarrow> callback \<Rightarrow>
   run + CuratorFramework \<times> frame" where
  "Test_setup_with build start DEFAULT_CONNECTION_TIMEOUT c t cb =
     (case Test_start_with build start DEFAULT_CONNECTION_TIMEOUT c t of
        ((c3, t3), done, Inl f) \<Rightarrow>
          Inl \<lparr>mzc = c3, tT = t3, steps = done, outcome = Aborted f\<rparr>
      | ((c3, t3), done, Inr (client, err)) \<Rightarrow>
          Inr (client,
               resolve client 0 (params cb)
                 \<lparr>f_args = replicate (length (params cb)) None,
                  f_c = c3,
                  f_t = assert_NoError t3 err,
                  f_waiting = False,
                  f_steps = done\<rparr>))"

definition Test_with ::
  "build_operation \<Rightarrow> client_operation \<Rightarrow> client_operation \<Rightarrow> int64 \<Rightarrow> mockZookeeperClient \<Rightarrow>
   testing_T \<Rightarrow> callback \<Rightarrow> run" where
  "Test_with build start close DEFAULT_CONNECTION_TIMEOUT c t cb =
     (case Test_setup_with build start DEFAULT_CONNECTION_TIMEOUT c t cb of
        Inl r \<Rightarrow> r
      | Inr (client, fr) \<Rightarrow> Test_call_with close client cb fr)"

text \<open>
  \<^verbatim>\<open>Test\<close> and its parts with the client framework's own build, start and close.
\<close>

definition Test_teardown ::
  "CuratorFramework \<Rightarrow> mockZookeeperClient \<Rightarrow> testing_T \<Rightarrow> step list \<Rightarrow> run" where
  "Test_teardown client c t done = Test_teardown_with client_Close client c t done"

definition Test_call :: "CuratorFramework \<Rightarrow> callback \<Rightarrow> frame \<Rightarrow> run" where
  "Test_call client cb fr = Test_call_with client_Close client cb fr"

definition Test_start ::
  "int64 \<Rightarrow> mockZookeeperClient \<Rightarrow> testing_T \<Rightarrow>
   (mockZookeeperClient \<times> testing_T) \<times> step list \<times> (failure + CuratorFramework \<times> error)" where
  "Test_start DEFAULT_CONNECTION_TIMEOUT c t =
     Test_start_with client_Build (client_Start DEFAULT_CONNECTION_TIMEOUT) DEFAULT_CONNECTION_TIMEOUT c t"

definition Test_setup ::
  "int64 \<Rightarrow> mockZookeeperClient \<Rightarrow> testing_T \<Rightarrow> callback \<Rightarrow> run + CuratorFramework \<times> frame" where
  "Test_setup DEFAULT_CONNECTION_TIMEOUT c t cb =
     Test_setup_with client_Build (client_Start DEFAULT_CONNECTION_TIMEOUT) DEFAULT_CONNECTION_TIMEOUT c t cb"

definition Test :: "int64 \<Rightarrow> mockZookeeperClient \<Rightarrow> testing_T \<Rightarrow> callback \<Rightarrow> run" where
  "Test DEFAULT_CONNECTION_TIMEOUT c t cb =
     Test_with client_Build (client_Start DEFAULT_CONNECTION_TIMEOUT) client_Close
       DEFAULT_CONNECTION_TIMEOUT c t cb"

definition WithClient :: "int64 \<Rightarrow> testing_T \<Rightarrow> callback \<Rightarrow> run" where
  "WithClient DEFAULT_CONNECTION_TIMEOUT t cb = Test DEFAULT_CONNECTION_TIMEOUT newMockZookeeperClient t cb"

definition WithClientAndNamespace :: "int64 \<Rightarrow> testing_T \<Rightarrow> string \<Rightarrow> callback \<Rightarrow> run" where
  "WithClientAndNamespace DEFAULT_CONNECTION_TIMEOUT t namespace cb =
     Test DEFAULT_CONNECTION_TIMEOUT (WithNamespace newMockZookeeperClient namespace) t cb"

text \<open>
  The harness entry point, "taking (a) an optional namespace and (b) a callback": each
  run is on an orchestrator that was just made.
\<close>

definition fresh_harness :: "string option \<Rightarrow> mockZookeeperClient" where
  "fresh_harness namespace =
     (case namespace of
        None \<Rightarrow> newMockZookeeperClient
      | Some n \<Rightarrow> WithNamespace newMockZookeeperClient n)"

definition harness_run :: "int64 \<Rightarrow> testing_T \<Rightarrow> string option \<Rightarrow> callback \<Rightarrow> run" where
  "harness_run DEFAULT_CONNECTION_TIMEOUT t namespace cb =
     (case namespace of
        None \<Rightarrow> WithClient DEFAULT_CONNECTION_TIMEOUT t cb
      | Some n \<Rightarrow> WithClientAndNamespace DEFAULT_CONNECTION_TIMEOUT t n cb)"

section \<open>Notions the statements use\<close>

text \<open>
  The set of recognized callback parameter types, in the specification's words:
  configuration object, client handle, connection double by concrete or abstract
  identity, dialer double by concrete or abstract identity, compression double by
  concrete identity, event channel, completion-signal handle.
\<close>

definition recognized :: "go_type \<Rightarrow> bool" where
  "recognized ty =
     List.member
       [T_ptr_CuratorFrameworkBuilder, T_CuratorFramework, T_ptr_mockConn, T_ZookeeperConnection,
        T_ptr_mockZookeeperDialer, T_ZookeeperDialer, T_ptr_mockCompressionProvider,
        T_chan_zk_Event, T_ptr_sync_WaitGroup] ty"

text \<open>
  The handle that matches a parameter type: what a callback that declares the type is
  to be called with. No handle matches a type outside the recognized set.
\<close>

fun matching_handle :: "CuratorFramework \<Rightarrow> mockZookeeperClient \<Rightarrow> go_type \<Rightarrow> arg option" where
  "matching_handle client c T_ptr_CuratorFrameworkBuilder = Some Arg_builder"
| "matching_handle client c T_CuratorFramework = Some (Arg_client client)"
| "matching_handle client c T_ZookeeperConnection = Some Arg_conn"
| "matching_handle client c T_ptr_mockConn = Some Arg_conn"
| "matching_handle client c T_ZookeeperDialer = Some Arg_dialer"
| "matching_handle client c T_ptr_mockZookeeperDialer = Some Arg_dialer"
| "matching_handle client c T_CompressionProvider = None"
| "matching_handle client c T_ptr_mockCompressionProvider = Some Arg_compress"
| "matching_handle client c T_chan_zk_Event = Some (Arg_events (events c))"
| "matching_handle client c T_ptr_sync_WaitGroup = Some Arg_wg"
| "matching_handle client c (T_other name) = None"

text \<open>
  The statements of the resolution loop that leave a mark: one registration of pending
  work for each completion-signal parameter, one report for each unrecognized type.
\<close>

fun resolution_steps :: "go_type list \<Rightarrow> step list" where
  "resolution_steps [] = []"
| "resolution_steps (ty # tys) =
     (if ty = T_ptr_sync_WaitGroup then RegisterPending # resolution_steps tys
      else if recognized ty then resolution_steps tys
      else ReportUnknownType # resolution_steps tys)"

text \<open>
  The expected dial call in the specification's words: the connect string the
  configuration's address resolver produces, the fixed default timeout, the
  configuration's read-only flag; it returns the connection double, the event channel
  and no error, exactly once.
\<close>

definition dial_arguments :: "int64 \<Rightarrow> mockZookeeperClient \<Rightarrow> val list" where
  "dial_arguments DEFAULT_CONNECTION_TIMEOUT c =
     [VString (ConnectionString (EnsembleProvider (builder c))),
      VDuration DEFAULT_CONNECTION_TIMEOUT,
      VBool (CanBeReadOnly (builder c))]"

definition dial_expectation :: "int64 \<Rightarrow> mockZookeeperClient \<Rightarrow> ExpectedCall" where
  "dial_expectation DEFAULT_CONNECTION_TIMEOUT c =
     \<lparr>Method = ''Dial'',
      Arguments = dial_arguments DEFAULT_CONNECTION_TIMEOUT c,
      ReturnArguments = [VConn 0, VChan (Some (events c)), VNil],
      Repeatability = ExactlyOnce,
      totalCalls = 0\<rparr>"

definition close_expectation :: ExpectedCall where
  "close_expectation =
     \<lparr>Method = ''Close'', Arguments = [], ReturnArguments = [],
      Repeatability = ExactlyOnce, totalCalls = 0\<rparr>"

text \<open>
  A typed response of the connection double, written as the canned values a test hands
  to \<^verbatim>\<open>Return\<close> for the double to give that response: each value has the dynamic type
  the double's code reads its slot with. For the event channel of the watch operations
  that is \<^verbatim>\<open>chan zk.Event\<close> (\<open>VChan\<close>), the type lines 111, 147 and 179 assert, and not
  the \<^verbatim>\<open><-chan zk.Event\<close> (\<open>VRecvChan\<close>) that the signatures declare for the slot.
\<close>

fun canned :: "conn_response \<Rightarrow> val list" where
  "canned (Res_AddAuth err) = [val_of_error err]"
| "canned Res_Close = []"
| "canned (Res_Create (createPath, err)) = [VString createPath, val_of_error err]"
| "canned (Res_Exists (ex, stat, err)) = [VBool ex, VStat stat, val_of_error err]"
| "canned (Res_ExistsW (ex, stat, ev, err)) = [VBool ex, VStat stat, VChan ev, val_of_error err]"
| "canned (Res_Delete err) = [val_of_error err]"
| "canned (Res_Get (data, stat, err)) = [VBytes data, VStat stat, val_of_error err]"
| "canned (Res_GetW (data, stat, ev, err)) = [VBytes data, VStat stat, VChan ev, val_of_error err]"
| "canned (Res_Set (stat, err)) = [VStat stat, val_of_error err]"
| "canned (Res_Children (children, stat, err)) = [VStrings children, VStat stat, val_of_error err]"
| "canned (Res_ChildrenW (children, stat, ev, err)) =
     [VStrings children, VStat stat, VChan ev, val_of_error err]"
| "canned (Res_GetACL (acls, stat, err)) = [VACLs acls, VStat stat, val_of_error err]"
| "canned (Res_SetACL (stat, err)) = [VStat stat, val_of_error err]"
| "canned (Res_Multi (res, err)) = [VMultiResponses res, val_of_error err]"
| "canned (Res_Sync (s, err)) = [VString s, val_of_error err]"

text \<open>The operation name and the argument list a request reaches the substrate with.\<close>

fun request_name :: "conn_request \<Rightarrow> string" where
  "request_name (Req_AddAuth scheme auth) = ''AddAuth''"
| "request_name Req_Close = ''Close''"
| "request_name (Req_Create path data flags acls) = ''Create''"
| "request_name (Req_Exists path) = ''Exists''"
| "request_name (Req_ExistsW path) = ''ExistsW''"
| "request_name (Req_Delete path version) = ''Delete''"
| "request_name (Req_Get path) = ''Get''"
| "request_name (Req_GetW path) = ''GetW''"
| "request_name (Req_Set path data version) = ''Set''"
| "request_name (Req_Children path) = ''Children''"
| "request_name (Req_ChildrenW path) = ''ChildrenW''"
| "request_name (Req_GetACL path) = ''GetACL''"
| "request_name (Req_SetACL path acls version) = ''SetACL''"
| "request_name (Req_Multi ops) = ''Multi''"
| "request_name (Req_Sync path) = ''Sync''"

fun request_args :: "conn_request \<Rightarrow> val list" where
  "request_args (Req_AddAuth scheme auth) = [VString scheme, VBytes auth]"
| "request_args Req_Close = []"
| "request_args (Req_Create path data flags acls) = [VString path, VBytes data, VInt32 flags, VACLs acls]"
| "request_args (Req_Exists path) = [VString path]"
| "request_args (Req_ExistsW path) = [VString path]"
| "request_args (Req_Delete path version) = [VString path, VInt32 version]"
| "request_args (Req_Get path) = [VString path]"
| "request_args (Req_GetW path) = [VString path]"
| "request_args (Req_Set path data version) = [VString path, VBytes data, VInt32 version]"
| "request_args (Req_Children path) = [VString path]"
| "request_args (Req_ChildrenW path) = [VString path]"
| "request_args (Req_GetACL path) = [VString path]"
| "request_args (Req_SetACL path acls version) = [VString path, VACLs acls, VInt32 version]"
| "request_args (Req_Multi ops) = [VSlice ops]"
| "request_args (Req_Sync path) = [VString path]"



text \<open>
  The lookup for an operation name and an argument list selects an expectation (the
  first programmed one with that name and matching arguments that is not exhausted), and
  its canned values are \<open>rets\<close>.
\<close>

definition selects :: "'a Mock_scheme \<Rightarrow> string \<Rightarrow> val list \<Rightarrow> val list \<Rightarrow> bool" where
  "selects m methodName arguments rets =
     (case findExpectedCall (ExpectedCalls m) methodName arguments of
        None \<Rightarrow> False
      | Some i \<Rightarrow> ReturnArguments (ExpectedCalls m ! i) = rets)"

text \<open>The nil values of the slice, pointer and channel types the doubles return.\<close>

definition zero_value :: "val \<Rightarrow> bool" where
  "zero_value v =
     (case v of
        VBytes b \<Rightarrow> b = None
      | VStrings s \<Rightarrow> s = None
      | VACLs a \<Rightarrow> a = None
      | VStat s \<Rightarrow> s = None
      | VChan c \<Rightarrow> c = None
      | VMultiResponses r \<Rightarrow> r = None
      | VNil \<Rightarrow> True
      | _ \<Rightarrow> False)"

text \<open>A returned value is the canned value of its slot, or the nil value.\<close>

definition canned_or_zero :: "val \<Rightarrow> val \<Rightarrow> bool" where
  "canned_or_zero returned programmed = (returned = programmed \<or> zero_value returned)"

definition is_ACLs :: "val \<Rightarrow> bool" where
  "is_ACLs v = (case v of VACLs a \<Rightarrow> True | _ \<Rightarrow> False)"

text \<open>
  Client operations that probe the dialer double, for statements about what the
  orchestrator has programmed at the moment it calls the client: a build that dials with
  the given three arguments before it returns the client, and a start that dials with
  the given three arguments (the framework's own start is the one with the
  configuration's connect string, the default timeout and the read-only flag).
\<close>

definition dialing_Build :: "string \<Rightarrow> int64 \<Rightarrow> bool \<Rightarrow> build_operation" where
  "dialing_Build connString sessionTimeout canBeReadOnly b c t =
     (case client_dial connString sessionTimeout canBeReadOnly c t of
        (s, Inl f) \<Rightarrow> (s, Inl f)
      | (s, Inr err) \<Rightarrow> (s, Inr (Build b)))"

definition dialing_Start :: "string \<Rightarrow> int64 \<Rightarrow> bool \<Rightarrow> client_operation" where
  "dialing_Start connString sessionTimeout canBeReadOnly client c t =
     client_dial connString sessionTimeout canBeReadOnly c t"

text \<open>\<open>a\<close> occurs in the list, and before the first \<open>b\<close> if there is one.\<close>

fun precedes :: "'a \<Rightarrow> 'a \<Rightarrow> 'a list \<Rightarrow> bool" where
  "precedes a b [] = False"
| "precedes a b (x # xs) = (if x = b then False else if x = a then True else precedes a b xs)"

text \<open>
  Callbacks of the specification's scenarios, used as instances. The first programs
  \<^verbatim>\<open>Get("/a")\<close> to return \<^verbatim>\<open>[]byte("v")\<close>, a stat with \<^verbatim>\<open>Version\<close> 1 and no error, and
  calls it. The second calls \<^verbatim>\<open>Get("/a")\<close> with nothing programmed. The third declares
  the completion-signal handle, programs \<^verbatim>\<open>Children("/parent")\<close> with three children
  and hands the read, and then the \<^verbatim>\<open>Done\<close>, to background work. The fourth declares
  the completion-signal handle twice and returns.
\<close>

definition callback_get :: callback where
  "callback_get =
     \<lparr>params = [T_CuratorFramework, T_ptr_mockConn],
      body = (\<lambda>args c t.
        case mockConn_Get
               (Return (On (conn c) ''Get'' [VString ''/a''])
                  [VBytes (Some [0x76]),
                   VStat (Some \<lparr>Czxid = 0, Mzxid = 0, Ctime = 0, Mtime = 0, Version = 1, Cversion = 0,
                                Aversion = 0, EphemeralOwner = 0, DataLength = 0, NumChildren = 0,
                                Pzxid = 0\<rparr>),
                   VNil])
               t ''/a'' of
          ((cn, t'), Inl f) \<Rightarrow> Panicked (c\<lparr>conn := cn\<rparr>) t' f
        | ((cn, t'), Inr r) \<Rightarrow> Returned (c\<lparr>conn := cn\<rparr>) t' [])\<rparr>"

definition callback_unprogrammed_get :: callback where
  "callback_unprogrammed_get =
     \<lparr>params = [T_ptr_mockConn],
      body = (\<lambda>args c t.
        case mockConn_Get (conn c) t ''/a'' of
          ((cn, t'), Inl f) \<Rightarrow> Panicked (c\<lparr>conn := cn\<rparr>) t' f
        | ((cn, t'), Inr r) \<Rightarrow> Returned (c\<lparr>conn := cn\<rparr>) t' [])\<rparr>"

definition callback_children_in_background :: callback where
  "callback_children_in_background =
     \<lparr>params = [T_ptr_mockConn, T_ptr_sync_WaitGroup],
      body = (\<lambda>args c t.
        Returned
          (c\<lparr>conn := Return (On (conn c) ''Children'' [VString ''/parent''])
                         [VStrings (Some [''a'', ''b'', ''c'']), VStat None, VNil]\<rparr>)
          t
          [\<lambda>s. case mockConn_Children (conn (fst s)) (snd s) ''/parent'' of
                 ((cn, t'), r) \<Rightarrow> ((fst s)\<lparr>conn := cn\<rparr>, t'),
           \<lambda>s. ((fst s)\<lparr>wg := wg (fst s) - 1\<rparr>, snd s)])\<rparr>"

definition callback_two_wait_groups :: callback where
  "callback_two_wait_groups =
     \<lparr>params = [T_ptr_sync_WaitGroup, T_ptr_sync_WaitGroup],
      body = (\<lambda>args c t. Returned c t [])\<rparr>"

section \<open>Facts about the substrate and the doubles\<close>

lemma Called_operations: "operations (fst (Called c n a)) = operations c"
  by (simp add: Called_def split: option.splits)

lemma Called_log_update:
  "Called (c\<lparr>log := l\<rparr>) n a = (case Called c n a of (c', r) \<Rightarrow> (c'\<lparr>log := l\<rparr>, r))"
  by (simp add: Called_def split: option.splits)

lemma Called_log_snd: "snd (Called (c\<lparr>log := l\<rparr>) n a) = snd (Called c n a)"
  by (simp add: Called_log_update split: prod.splits)

lemma Called_log_fst: "fst (Called (c\<lparr>log := l\<rparr>) n a) = (fst (Called c n a))\<lparr>log := l\<rparr>"
  by (simp add: Called_log_update split: prod.splits)

lemma Called_log_snd_ops:
  "snd (Called (c\<lparr>log := l, operations := x\<rparr>) n a) = snd (Called (c\<lparr>operations := x\<rparr>) n a)"
  by (simp add: Called_def split: option.splits)

lemma Called_log_fst_ops:
  "fst (Called (c\<lparr>log := l, operations := x\<rparr>) n a) = (fst (Called (c\<lparr>operations := x\<rparr>) n a))\<lparr>log := l\<rparr>"
  by (simp add: Called_def split: option.splits)

lemma respond_state: "fst (fst (respond called d tr t)) = fst called"
  by (simp add: respond_def split: prod.splits sum.splits)

lemma respond_result:
  "snd (respond called d tr t) = (case snd called of Inl f \<Rightarrow> Inl f | Inr args \<Rightarrow> d args)"
  by (simp add: respond_def split: prod.splits sum.splits)

lemma tag_state: "fst (tag f x) = fst x"
  by (simp add: tag_def)

lemmas conn_methods =
  mockConn_AddAuth_def mockConn_Close_def mockConn_Create_def mockConn_Exists_def
  mockConn_ExistsW_def mockConn_Delete_def mockConn_Get_def mockConn_GetW_def
  mockConn_Set_def mockConn_Children_def mockConn_ChildrenW_def mockConn_GetACL_def
  mockConn_SetACL_def mockConn_Multi_def mockConn_Sync_def

lemma conn_call_operations:
  "operations (fst (fst (conn_call c t req))) = operations c @ sub_operations req"
  by (cases req) (simp_all add: tag_state respond_state Called_operations conn_methods)

lemma conn_calls_operations:
  "operations (fst (conn_calls c t reqs)) = operations c @ concat (map sub_operations reqs)"
proof (induction reqs arbitrary: c t)
  case Nil
  show ?case by simp
next
  case (Cons r rs)
  obtain c' t' where step: "fst (conn_call c t r) = (c', t')"
    by (cases "fst (conn_call c t r)")
  have "operations c' = operations c @ sub_operations r"
    using conn_call_operations [of c t r] step by simp
  with Cons.IH [of c' t'] step show ?case by simp
qed

lemma concat_Multi: "concat (map sub_operations (map Req_Multi batches)) = concat (map elems batches)"
  by (induction batches) simp_all

lemma conn_call_log_result: "snd (conn_call (c\<lparr>log := l\<rparr>) t req) = snd (conn_call c t req)"
  by (cases req) (simp_all add: tag_def respond_result Called_log_snd Called_log_snd_ops conn_methods)

lemma conn_call_log_state:
  "fst (fst (conn_call (c\<lparr>log := l\<rparr>) t req)) = (fst (fst (conn_call c t req)))\<lparr>log := l\<rparr>"
  by (cases req) (simp_all add: tag_def respond_state Called_log_fst Called_log_fst_ops conn_methods)

section \<open>Facts about the resolution loop and the start of a run\<close>

lemma recognized_iff: "recognized ty \<longleftrightarrow> matching_handle client c ty \<noteq> None"
  by (cases ty) (simp_all add: recognized_def)

lemma matching_handle_events:
  "events c' = events c \<Longrightarrow> matching_handle client c' ty = matching_handle client c ty"
  by (cases ty) simp_all

lemma resolve_slot_args:
  "f_args fr ! i = None \<Longrightarrow>
   f_args (resolve_slot client i ty fr) = (f_args fr)[i := matching_handle client (f_c fr) ty]"
  using list_update_id [of "f_args fr" i]
  by (cases ty) (simp_all add: resolve_slot_def)

lemma resolve_slot_c:
  "f_c (resolve_slot client i ty fr) =
   (f_c fr)\<lparr>wg := wg (f_c fr) + (if ty = T_ptr_sync_WaitGroup then 1 else 0)\<rparr>"
  by (cases ty) (simp_all add: resolve_slot_def)

lemma resolve_slot_waiting:
  "f_waiting (resolve_slot client i ty fr) = (if ty = T_ptr_sync_WaitGroup then True else f_waiting fr)"
  by (cases ty) (simp_all add: resolve_slot_def)

lemma resolve_slot_steps:
  "f_steps (resolve_slot client i ty fr) = f_steps fr @ resolution_steps [ty]"
  by (cases ty) (simp_all add: resolve_slot_def recognized_def)

lemma resolve_slot_t:
  "f_t (resolve_slot client i ty fr) =
   (if recognized ty then f_t fr else Errorf ''unknown arg type: %s'' [VType ty] (f_t fr))"
  by (cases ty) (simp_all add: resolve_slot_def recognized_def)

lemma resolve_c:
  "f_c (resolve client i tys fr) =
   (f_c fr)\<lparr>wg := wg (f_c fr) + int (count_list tys T_ptr_sync_WaitGroup)\<rparr>"
  by (induction tys arbitrary: i fr) (simp_all add: resolve_slot_c)

lemma resolve_waiting:
  "f_waiting (resolve client i tys fr) = (f_waiting fr \<or> T_ptr_sync_WaitGroup \<in> set tys)"
  by (induction tys arbitrary: i fr) (auto simp add: resolve_slot_waiting)

lemma resolution_steps_Cons: "resolution_steps (ty # tys) = resolution_steps [ty] @ resolution_steps tys"
  by simp

lemma resolve_steps: "f_steps (resolve client i tys fr) = f_steps fr @ resolution_steps tys"
proof (induction tys arbitrary: i fr)
  case Nil
  show ?case by simp
next
  case (Cons ty tys)
  have "f_steps (resolve client i (ty # tys) fr) = (f_steps fr @ resolution_steps [ty]) @ resolution_steps tys"
    using Cons.IH [of "Suc i" "resolve_slot client i ty fr"] by (simp only: resolve.simps resolve_slot_steps)
  then show ?case by (simp only: resolution_steps_Cons [of ty tys] append_assoc)
qed

lemma resolve_args:
  "i + length tys \<le> length (f_args fr) \<Longrightarrow>
   (\<forall>k. i \<le> k \<and> k < i + length tys \<longrightarrow> f_args fr ! k = None) \<Longrightarrow>
   f_args (resolve client i tys fr) =
     take i (f_args fr) @ map (matching_handle client (f_c fr)) tys @ drop (i + length tys) (f_args fr)"
proof (induction tys arbitrary: i fr)
  case Nil
  then show ?case by simp
next
  case (Cons ty tys)
  let ?next = "resolve_slot client i ty fr"
  have none: "f_args fr ! i = None" using Cons.prems by simp
  have args: "f_args ?next = (f_args fr)[i := matching_handle client (f_c fr) ty]"
    using none by (rule resolve_slot_args)
  have len: "Suc i + length tys \<le> length (f_args ?next)" using Cons.prems args by simp
  have rest: "\<forall>k. Suc i \<le> k \<and> k < Suc i + length tys \<longrightarrow> f_args ?next ! k = None"
    using Cons.prems args by simp
  have ev: "events (f_c ?next) = events (f_c fr)" by (simp add: resolve_slot_c)
  have h: "map (matching_handle client (f_c ?next)) tys = map (matching_handle client (f_c fr)) tys"
    using matching_handle_events [OF ev] by simp
  have ilt: "i < length (f_args fr)" using Cons.prems by simp
  have t: "take (Suc i) (f_args ?next) = take i (f_args fr) @ [matching_handle client (f_c fr) ty]"
    using ilt by (simp add: args take_Suc_conv_app_nth)
  have d: "drop (Suc (i + length tys)) (f_args ?next) = drop (Suc (i + length tys)) (f_args fr)"
    by (simp add: args)
  show ?case
    using Cons.IH [OF len rest] d by (simp add: h t)
qed

lemma resolve_args_fresh:
  "f_args fr = replicate (length tys) None \<Longrightarrow>
   f_args (resolve client 0 tys fr) = map (matching_handle client (f_c fr)) tys"
  using resolve_args [of 0 tys fr client] by simp

lemma resolve_failed:
  "failed (f_t (resolve client i tys fr)) = (failed (f_t fr) \<or> list_ex (\<lambda>ty. \<not> recognized ty) tys)"
  by (induction tys arbitrary: i fr) (auto simp add: resolve_slot_t Errorf_def Logf_def)

lemma resolve_logged:
  "logged (f_t (resolve client i tys fr)) =
   logged (f_t fr) @ map (\<lambda>ty. (''unknown arg type: %s'', [VType ty])) (filter (\<lambda>ty. \<not> recognized ty) tys)"
  by (induction tys arbitrary: i fr) (simp_all add: resolve_slot_t Errorf_def Logf_def)

lemma those_None: "those xs = None \<longleftrightarrow> None \<in> set xs"
  by (induction xs) (auto split: option.splits)

lemma resolution_steps_only:
  "set (resolution_steps tys) \<subseteq> {RegisterPending, ReportUnknownType}"
  by (induction tys) auto

lemma unrecognized_zero:
  assumes "ty \<in> set tys" "\<not> recognized ty"
  shows "those (map (matching_handle client c) tys) = None"
proof -
  have "matching_handle client c ty = None" using assms(2) recognized_iff [of ty client c] by simp
  then have "None \<in> set (map (matching_handle client c) tys)" using assms(1) by force
  then show ?thesis by (simp add: those_None)
qed

lemmas start_defs =
  Test_start_def Test_start_with_def client_Build_def client_Start_def client_dial_def Build_def
  Test_hooks_def Test_program_def mockZookeeperDialer_Dial_def
  respond_def Called_def On_def Return_def Once_def matches_def arg_match_def Anything_def exhausted_def
  args_Get_def args_Error_def bindR_def Let_def

lemma Test_start_result:
  assumes "ExpectedCalls (dialer c) = []"
  shows "snd (Test_start dct c t) =
     ([SetLogHooks, BuildClient, ProgramDial, StartClient], Inr (Build (builder c), None))"
  using assms by (simp add: start_defs)

lemma Test_start_state:
  assumes "ExpectedCalls (dialer c) = []"
  shows "fst (fst (Test_start dct c t)) =
     c\<lparr>conn := (conn c)\<lparr>log := Some Logf\<rparr>,
       compress := (compress c)\<lparr>log := Some Logf\<rparr>,
       dialer := (dialer c)\<lparr>log := Some Logf,
                   ExpectedCalls := [(dial_expectation dct c)\<lparr>totalCalls := 1\<rparr>],
                   Calls := Calls (dialer c) @ [(''Dial'', dial_arguments dct c)]\<rparr>\<rparr>"
  using assms by (simp add: start_defs dial_expectation_def dial_arguments_def)

lemma Test_start_T:
  assumes "ExpectedCalls (dialer c) = []"
  shows "failed (snd (fst (Test_start dct c t))) = failed t"
  using assms by (simp add: start_defs emit_def Logf_def)

lemma harness_run_Test: "harness_run dct t ns cb = Test dct (fresh_harness ns) t cb"
  by (simp add: harness_run_def fresh_harness_def WithClient_def WithClientAndNamespace_def
      split: option.splits)

lemma fresh_dialer: "ExpectedCalls (dialer (fresh_harness ns)) = []"
  by (simp add: fresh_harness_def newMockZookeeperClient_def WithNamespace_def split: option.splits)

lemma Test_setup_frame:
  assumes "ExpectedCalls (dialer c) = []"
  shows "Test_setup dct c t cb =
     Inr (Build (builder c),
          resolve (Build (builder c)) 0 (params cb)
            \<lparr>f_args = replicate (length (params cb)) None,
             f_c = fst (fst (Test_start dct c t)),
             f_t = snd (fst (Test_start dct c t)),
             f_waiting = False,
             f_steps = [SetLogHooks, BuildClient, ProgramDial, StartClient]\<rparr>)"
proof -
  obtain c3 t3 r where st: "Test_start dct c t = ((c3, t3), r)"
    by (cases "Test_start dct c t") auto
  have r: "r = ([SetLogHooks, BuildClient, ProgramDial, StartClient], Inr (Build (builder c), None))"
    using Test_start_result [OF assms, of dct t] st by simp
  have "Test_start_with client_Build (client_Start dct) dct c t = ((c3, t3), r)"
    using st by (simp add: Test_start_def)
  then show ?thesis by (simp add: Test_setup_def Test_setup_with_def r st assert_NoError_def)
qed

lemma Test_setup_body: "Test_setup dct c t (cb\<lparr>body := b\<rparr>) = Test_setup dct c t cb"
  by (simp add: Test_setup_def Test_setup_with_def split: prod.splits sum.splits)

lemma Test_unfold:
  "Test dct c t cb = (case Test_setup dct c t cb of Inl r \<Rightarrow> r | Inr (client, fr) \<Rightarrow> Test_call client cb fr)"
  by (simp add: Test_def Test_with_def Test_setup_def Test_call_def split: sum.splits prod.splits)

section \<open>Facts about lookups, canned values and the order of a run\<close>

lemma Test_teardown_steps: "prefix done (steps (Test_teardown client c t done))"
  by (simp add: Test_teardown_def Test_teardown_with_def Let_def split: prod.splits sum.splits)

lemma Test_call_steps: "prefix (f_steps fr) (steps (Test_call client cb fr))"
proof -
  have a: "\<And>c t xs. prefix (f_steps fr) (steps (Test_teardown client c t (f_steps fr @ xs)))"
    using Test_teardown_steps prefix_order.order_trans prefixI by blast
  show ?thesis
    using a [of _ _ "[CallbackInvoked, CallbackReturned]"]
      a [of _ _ "[CallbackInvoked, CallbackReturned, AwaitCompletion]"]
    by (simp add: Test_call_def Test_call_with_def Test_teardown_def [symmetric]
        split: option.splits cb_result.splits prod.splits bool.splits)
qed

lemma harness_run_steps:
  "prefix ([SetLogHooks, BuildClient, ProgramDial, StartClient] @ resolution_steps (params cb))
     (steps (harness_run dct t ns cb))"
proof -
  let ?c = "fresh_harness ns"
  have su: "Test_setup dct ?c t cb = Inr (Build (builder ?c),
          resolve (Build (builder ?c)) 0 (params cb)
            \<lparr>f_args = replicate (length (params cb)) None,
             f_c = fst (fst (Test_start dct ?c t)),
             f_t = snd (fst (Test_start dct ?c t)),
             f_waiting = False,
             f_steps = [SetLogHooks, BuildClient, ProgramDial, StartClient]\<rparr>)"
    by (rule Test_setup_frame [OF fresh_dialer])
  show ?thesis
    using Test_call_steps [of "resolve (Build (builder ?c)) 0 (params cb)
            \<lparr>f_args = replicate (length (params cb)) None,
             f_c = fst (fst (Test_start dct ?c t)),
             f_t = snd (fst (Test_start dct ?c t)),
             f_waiting = False,
             f_steps = [SetLogHooks, BuildClient, ProgramDial, StartClient]\<rparr>" "Build (builder ?c)" cb]
    by (simp add: harness_run_Test Test_unfold su resolve_steps)
qed

lemma precedes_prefix: "precedes a b xs \<Longrightarrow> prefix xs ys \<Longrightarrow> precedes a b ys"
proof (induction xs arbitrary: ys)
  case Nil
  then show ?case by simp
next
  case (Cons x xs)
  show ?case
  proof (cases ys)
    case Nil
    with Cons.prems show ?thesis by simp
  next
    case (Cons y zs)
    with Cons.prems Cons.IH [of zs] show ?thesis by (auto split: if_splits)
  qed
qed

lemma update_last_snoc: "update_last f (xs @ [x]) = xs @ [f x]"
  by (induction f xs rule: update_last.induct) simp_all

lemma Test_program_dialer:
  "ExpectedCalls (dialer (Test_program dct c)) = ExpectedCalls (dialer c) @ [dial_expectation dct c]"
  by (simp add: Test_program_def On_def Return_def Once_def Let_def update_last_snoc
      dial_expectation_def dial_arguments_def)

lemma Test_hooks_fields:
  "ExpectedCalls (dialer (Test_hooks c)) = ExpectedCalls (dialer c)"
  "Calls (dialer (Test_hooks c)) = Calls (dialer c)"
  "ExpectedCalls (conn (Test_hooks c)) = ExpectedCalls (conn c)"
  "builder (Test_hooks c) = builder c"
  "events (Test_hooks c) = events c"
  "events_closed (Test_hooks c) = events_closed c"
  "wg (Test_hooks c) = wg c"
  by (simp_all add: Test_hooks_def)

lemma dial_hooks:
  "dial_expectation dct (Test_hooks c) = dial_expectation dct c"
  "dial_arguments dct (Test_hooks c) = dial_arguments dct c"
  by (simp_all add: dial_expectation_def dial_arguments_def Test_hooks_def)

lemma fresh_dial_arguments:
  "dial_arguments dct (fresh_harness ns) = [VString ''connectString'', VDuration dct, VBool False]"
  by (simp add: dial_arguments_def fresh_harness_def newMockZookeeperClient_def WithNamespace_def
      ConnectionString_def split: option.splits)



lemma selects_operations [simp]: "selects (c\<lparr>operations := x\<rparr>) n a rets = selects c n a rets"
  by (simp add: selects_def split: option.splits)

lemma selects_Called: "selects m n a rets \<Longrightarrow> snd (Called m n a) = Inr rets"
  by (simp add: selects_def Called_def split: option.splits)




lemmas decode_defs = args_Get_def args_String_def args_Bool_def bindR_def



lemma bindR_Inr: "bindR r f = Inr y \<longleftrightarrow> (\<exists>x. r = Inr x \<and> f x = Inr y)"
  by (cases r) (simp_all add: bindR_def)

lemma bindR_Inl: "bindR r f = Inl e \<longleftrightarrow> r = Inl e \<or> (\<exists>x. r = Inr x \<and> f x = Inl e)"
  by (cases r) (simp_all add: bindR_def)

lemma args_Get_Inr: "args_Get rets i = Inr v \<longleftrightarrow> i < length rets \<and> v = rets ! i"
  by (auto simp add: args_Get_def)

lemma args_String_Inr: "args_String rets i = Inr s \<longleftrightarrow> i < length rets \<and> rets ! i = VString s"
  by (auto simp add: args_String_def args_Get_def bindR_def split: val.splits)

lemma args_Bool_Inr: "args_Bool rets i = Inr b \<longleftrightarrow> i < length rets \<and> rets ! i = VBool b"
  by (auto simp add: args_Bool_def args_Get_def bindR_def split: val.splits)

lemma args_Error_Inr: "args_Error rets i = Inr e \<longleftrightarrow> i < length rets \<and> rets ! i = val_of_error e"
  by (cases e) (auto simp add: args_Error_def args_Get_def bindR_def split: val.splits)

lemma args_no_TypeAssertion:
  "args_Get rets i \<noteq> Inl (TypeAssertion s)"
  "args_String rets i \<noteq> Inl (TypeAssertion s)"
  "args_Bool rets i \<noteq> Inl (TypeAssertion s)"
  "args_Error rets i \<noteq> Inl (TypeAssertion s)"
  by (auto simp add: args_String_def args_Bool_def args_Error_def args_Get_def bindR_def split: val.splits)

lemma Called_no_TypeAssertion: "snd (Called m n a) \<noteq> Inl (TypeAssertion s)"
  by (simp add: Called_def split: option.splits)

lemma checked_assertions:
  "VBytes (as_bytes v) = v \<or> zero_value (VBytes (as_bytes v))"
  "VStat (as_Stat v) = v \<or> zero_value (VStat (as_Stat v))"
  "VChan (as_chan v) = v \<or> zero_value (VChan (as_chan v))"
  "VStrings (as_strings v) = v \<or> zero_value (VStrings (as_strings v))"
  "VACLs (as_ACLs v) = v \<or> zero_value (VACLs (as_ACLs v))"
  "VMultiResponses (as_MultiResponses v) = v \<or> zero_value (VMultiResponses (as_MultiResponses v))"
  by (cases v; simp add: zero_value_def)+

lemma checked_assertions_kept:
  "canned_or_zero (VBytes (as_bytes v)) v"
  "canned_or_zero (VStat (as_Stat v)) v"
  "canned_or_zero (VChan (as_chan v)) v"
  "canned_or_zero (VStrings (as_strings v)) v"
  "canned_or_zero (VACLs (as_ACLs v)) v"
  "canned_or_zero (VMultiResponses (as_MultiResponses v)) v"
  "canned_or_zero v v"
  using checked_assertions [of v] by (simp_all add: canned_or_zero_def)

lemma conn_call_no_TypeAssertion: "snd (conn_call c t req) \<noteq> Inl (TypeAssertion s)"
  by (cases req)
     (auto simp add: tag_def respond_result conn_methods bindR_Inl args_no_TypeAssertion
        Called_no_TypeAssertion map_sum_def split: sum.splits)

lemma map_sum_Inr: "map_sum id f r = Inr y \<longleftrightarrow> (\<exists>x. r = Inr x \<and> y = f x)"
  by (cases r) auto

lemma conn_call_lenient:
  assumes "selects c (request_name req) (request_args req) rets" and "snd (conn_call c t req) = Inr res"
  shows "\<forall>k<length (canned res). k < length rets \<and> canned_or_zero (canned res ! k) (rets ! k)"
proof (cases req)
  case (Req_Multi ops)
  have "selects (c\<lparr>operations := operations c @ elems ops\<rparr>) ''Multi'' [VSlice ops] rets"
    using assms(1) by (simp add: Req_Multi)
  from selects_Called [OF this] assms(2) show ?thesis
    by (auto simp add: Req_Multi tag_def respond_result mockConn_Multi_def bindR_Inr
        args_Get_Inr args_Error_Inr map_sum_Inr less_Suc_eq checked_assertions_kept)
qed (use assms in
      \<open>auto simp add: tag_def respond_result conn_methods selects_Called bindR_Inr
        args_Get_Inr args_String_Inr args_Bool_Inr args_Error_Inr map_sum_Inr less_Suc_eq
        checked_assertions_kept numeral_2_eq_2 numeral_3_eq_3\<close>)


lemma interface_assertions_kept:
  "canned_or_zero (case as_ZookeeperConnection v of None \<Rightarrow> VNil | Some n \<Rightarrow> VConn n) v"
  "canned_or_zero (case as_EnsurePath v of None \<Rightarrow> VNil | Some n \<Rightarrow> VEnsurePath n) v"
  by (cases v; simp add: canned_or_zero_def zero_value_def)+

lemmas other_methods =
  mockZookeeperDialer_Dial_def mockCompressionProvider_Compress_def
  mockCompressionProvider_Decompress_def mockACLProvider_GetDefaultAcl_def
  mockACLProvider_GetAclForPath_def mockEnsurePath_Ensure_def mockEnsurePath_ExcludingLast_def
  mockEnsurePathHelper_Ensure_def mockCloseable_Close_def mockTracerDriver_AddTime_def
  mockTracerDriver_AddCount_def mockRetrySleeper_SleepFor_def


lemma other_doubles_no_TypeAssertion:
  "snd (mockZookeeperDialer_Dial d t connString sessionTimeout canBeReadOnly) \<noteq> Inl (TypeAssertion s)"
  "snd (mockCompressionProvider_Compress p t path data) \<noteq> Inl (TypeAssertion s)"
  "snd (mockCompressionProvider_Decompress p t path data) \<noteq> Inl (TypeAssertion s)"
  "snd (mockEnsurePath_Ensure e t client) \<noteq> Inl (TypeAssertion s)"
  "snd (mockEnsurePath_ExcludingLast e t) \<noteq> Inl (TypeAssertion s)"
  "snd (mockEnsurePathHelper_Ensure h t client path makeLastNode) \<noteq> Inl (TypeAssertion s)"
  "snd (mockCloseable_Close cl t) \<noteq> Inl (TypeAssertion s)"
  "snd (mockTracerDriver_AddTime tr t name dur) \<noteq> Inl (TypeAssertion s)"
  "snd (mockTracerDriver_AddCount tr t name increment) \<noteq> Inl (TypeAssertion s)"
  "snd (mockRetrySleeper_SleepFor sl t time) \<noteq> Inl (TypeAssertion s)"
  by (auto simp add: other_methods respond_result bindR_Inl args_no_TypeAssertion
        Called_no_TypeAssertion split: sum.splits)

lemma other_doubles_lenient:
  "selects d ''Dial'' [VString connString, VDuration sessionTimeout, VBool canBeReadOnly] rets \<Longrightarrow>
   snd (mockZookeeperDialer_Dial d t connString sessionTimeout canBeReadOnly) = Inr (cn, ev, err) \<Longrightarrow>
   2 < length rets
   \<and> canned_or_zero (case cn of None \<Rightarrow> VNil | Some n \<Rightarrow> VConn n) (rets ! 0)
   \<and> canned_or_zero (VChan ev) (rets ! 1) \<and> val_of_error err = rets ! 2"
  "selects p ''Compress'' [VString path, VBytes data] rets \<Longrightarrow>
   snd (mockCompressionProvider_Compress p t path data) = Inr (out, err) \<Longrightarrow>
   1 < length rets \<and> canned_or_zero (VBytes out) (rets ! 0) \<and> val_of_error err = rets ! 1"
  "selects p ''Decompress'' [VString path, VBytes data] rets \<Longrightarrow>
   snd (mockCompressionProvider_Decompress p t path data) = Inr (out, err) \<Longrightarrow>
   1 < length rets \<and> canned_or_zero (VBytes out) (rets ! 0) \<and> val_of_error err = rets ! 1"
  "selects e ''ExcludingLast'' [] rets \<Longrightarrow>
   snd (mockEnsurePath_ExcludingLast e t) = Inr ret \<Longrightarrow>
   0 < length rets \<and> canned_or_zero (case ret of None \<Rightarrow> VNil | Some n \<Rightarrow> VEnsurePath n) (rets ! 0)"
  by (auto simp add: other_methods respond_result selects_Called bindR_Inr
        args_Get_Inr args_Error_Inr checked_assertions_kept interface_assertions_kept)

lemma ACL_unchecked:
  "selects p ''GetDefaultAcl'' [] (v # rest) \<Longrightarrow> \<not> is_ACLs v \<Longrightarrow>
   snd (mockACLProvider_GetDefaultAcl p t) = Inl (TypeAssertion ''[]zk.ACL'')"
  "selects p ''GetAclForPath'' [VString path] (v # rest) \<Longrightarrow> \<not> is_ACLs v \<Longrightarrow>
   snd (mockACLProvider_GetAclForPath p t path) = Inl (TypeAssertion ''[]zk.ACL'')"
  by (cases v; simp add: other_methods respond_result selects_Called decode_defs is_ACLs_def)+

section \<open>Facts about the callback, the wait and the teardown\<close>

lemma wg_Wait_zero: "wg_Wait bg s = (True, s') \<Longrightarrow> wg (fst s') = 0"
  by (induction bg arbitrary: s) (auto split: if_splits)

lemma findExpectedCall_snoc:
  "\<not> list_ex (\<lambda>e. Method e = n) old \<Longrightarrow>
   findExpectedCall (old @ [e]) n a = (if matches e n a \<and> \<not> exhausted e then Some (length old) else None)"
  by (induction old) (auto simp add: matches_def)

lemma filter_unmatched: "\<not> list_ex (\<lambda>e. Method e = n) old \<Longrightarrow> filter (\<lambda>e. Method e = n) old = []"
  by (induction old) auto

lemma Test_teardown_with_completed:
  assumes "close client (c\<lparr>conn := Once (Return (On (conn c) ''Close'' []) [])\<rparr>) t = ((c2, t2), Inr err)"
      and "\<not> events_closed c2"
  shows "Test_teardown_with close client c t done =
     \<lparr>mzc = c2\<lparr>events_closed := True\<rparr>,
      tT = AssertExpectations (compress c2)
             (AssertExpectations (dialer c2) (AssertExpectations (conn c2) (assert_NoError t2 err))),
      steps = done @ [ProgramClose, CloseClient, CloseEvents, AssertAll],
      outcome = Completed\<rparr>"
  using assms by (simp add: Test_teardown_with_def Let_def close_events_def)

lemma program_Close:
  "ExpectedCalls (Once (Return (On m ''Close'' []) [])) = ExpectedCalls m @ [close_expectation]"
  by (simp add: On_def Return_def Once_def update_last_snoc close_expectation_def)

lemma client_Close_programmed:
  assumes "\<not> list_ex (\<lambda>e. Method e = ''Close'') (ExpectedCalls (conn c))"
  shows "client_Close client (c\<lparr>conn := Once (Return (On (conn c) ''Close'' []) [])\<rparr>) t =
     ((c\<lparr>conn := (conn c)\<lparr>ExpectedCalls := ExpectedCalls (conn c) @ [close_expectation\<lparr>totalCalls := 1\<rparr>],
                          Calls := Calls (conn c) @ [(''Close'', [])]\<rparr>\<rparr>, t), Inr None)"
  using assms
  by (simp add: client_Close_def mockConn_Close_def respond_def Called_def silent_def
      On_def Return_def Once_def update_last_snoc findExpectedCall_snoc matches_def exhausted_def
      close_expectation_def)

lemma precedes_append: "a \<in> set xs \<Longrightarrow> b \<notin> set xs \<Longrightarrow> precedes a b (xs @ ys)"
  by (induction xs) auto

lemma count_list_resolution_steps:
  "count_list (resolution_steps tys) RegisterPending = count_list tys T_ptr_sync_WaitGroup"
  by (induction tys) simp_all

lemma RegisterPending_resolution_steps:
  "RegisterPending \<in> set (resolution_steps tys) \<longleftrightarrow> T_ptr_sync_WaitGroup \<in> set tys"
  by (induction tys) auto

lemma Test_teardown_steps_form:
  "\<exists>rest. steps (Test_teardown client c t done) = done @ ProgramClose # rest
          \<and> set rest \<subseteq> {CloseClient, CloseEvents, AssertAll}"
  by (auto simp add: Test_teardown_def Test_teardown_with_def Let_def split: prod.splits sum.splits)

lemma Test_call_with_returned:
  assumes "those (f_args fr) = Some args" "body cb args (f_c fr) (f_t fr) = Returned c' t' bg"
  shows "Test_call_with close client cb fr =
     (if f_waiting fr then
        (case wg_Wait bg (c', t') of
           (False, c'', t'') \<Rightarrow>
             \<lparr>mzc = c'', tT = t'', steps = f_steps fr @ [CallbackInvoked, CallbackReturned], outcome = Blocked\<rparr>
         | (True, c'', t'') \<Rightarrow>
             Test_teardown_with close client c'' t''
               (f_steps fr @ [CallbackInvoked, CallbackReturned, AwaitCompletion]))
      else Test_teardown_with close client c' t' (f_steps fr @ [CallbackInvoked, CallbackReturned]))"
  by (simp add: Test_call_with_def assms)

lemma Test_call_returned:
  assumes "those (f_args fr) = Some args" "body cb args (f_c fr) (f_t fr) = Returned c' t' bg"
  shows "Test_call client cb fr =
     (if f_waiting fr then
        (case wg_Wait bg (c', t') of
           (False, c'', t'') \<Rightarrow>
             \<lparr>mzc = c'', tT = t'', steps = f_steps fr @ [CallbackInvoked, CallbackReturned], outcome = Blocked\<rparr>
         | (True, c'', t'') \<Rightarrow>
             Test_teardown client c'' t'' (f_steps fr @ [CallbackInvoked, CallbackReturned, AwaitCompletion]))
      else Test_teardown client c' t' (f_steps fr @ [CallbackInvoked, CallbackReturned]))"
  by (simp add: Test_call_def Test_teardown_def Test_call_with_returned [OF assms]
      split: prod.splits bool.splits)

lemma fresh_frame:
  assumes "Test_setup dct (fresh_harness ns) t cb = Inr (client, fr)"
  shows "client = Build (builder (fresh_harness ns))"
    and "f_steps fr = [SetLogHooks, BuildClient, ProgramDial, StartClient] @ resolution_steps (params cb)"
    and "f_waiting fr = (T_ptr_sync_WaitGroup \<in> set (params cb))"
    and "wg (f_c fr) = int (count_list (params cb) T_ptr_sync_WaitGroup)"
    and "ExpectedCalls (dialer (f_c fr)) = [(dial_expectation dct (fresh_harness ns))\<lparr>totalCalls := 1\<rparr>]"
    and "Calls (dialer (f_c fr)) = [(''Dial'', dial_arguments dct (fresh_harness ns))]"
    and "harness_run dct t ns cb = Test_call client cb fr"
proof -
  let ?c = "fresh_harness ns"
  let ?init = "\<lparr>f_args = replicate (length (params cb)) None,
             f_c = fst (fst (Test_start dct ?c t)),
             f_t = snd (fst (Test_start dct ?c t)),
             f_waiting = False,
             f_steps = [SetLogHooks, BuildClient, ProgramDial, StartClient]\<rparr>"
  have eq: "Inr (client, fr) = (Inr (Build (builder ?c), resolve (Build (builder ?c)) 0 (params cb) ?init)
              :: run + CuratorFramework \<times> frame)"
    using Test_setup_frame [OF fresh_dialer, of dct ns t cb] assms by simp
  then have cl: "client = Build (builder ?c)" and fr: "fr = resolve (Build (builder ?c)) 0 (params cb) ?init"
    by simp_all
  have st: "fst (fst (Test_start dct ?c t)) =
     ?c\<lparr>conn := (conn ?c)\<lparr>log := Some Logf\<rparr>,
       compress := (compress ?c)\<lparr>log := Some Logf\<rparr>,
       dialer := (dialer ?c)\<lparr>log := Some Logf,
                   ExpectedCalls := [(dial_expectation dct ?c)\<lparr>totalCalls := 1\<rparr>],
                   Calls := Calls (dialer ?c) @ [(''Dial'', dial_arguments dct ?c)]\<rparr>\<rparr>"
    by (rule Test_start_state [OF fresh_dialer])
  have fresh: "wg ?c = 0" "Calls (dialer ?c) = []"
    by (simp_all add: fresh_harness_def newMockZookeeperClient_def WithNamespace_def split: option.splits)
  show "client = Build (builder (fresh_harness ns))" by (rule cl)
  show "f_steps fr = [SetLogHooks, BuildClient, ProgramDial, StartClient] @ resolution_steps (params cb)"
    by (simp add: fr resolve_steps)
  show "f_waiting fr = (T_ptr_sync_WaitGroup \<in> set (params cb))"
    by (simp add: fr resolve_waiting)
  show "wg (f_c fr) = int (count_list (params cb) T_ptr_sync_WaitGroup)"
    by (simp add: fr resolve_c st fresh)
  show "ExpectedCalls (dialer (f_c fr)) = [(dial_expectation dct (fresh_harness ns))\<lparr>totalCalls := 1\<rparr>]"
    by (simp add: fr resolve_c st)
  show "Calls (dialer (f_c fr)) = [(''Dial'', dial_arguments dct (fresh_harness ns))]"
    by (simp add: fr resolve_c st fresh)
  show "harness_run dct t ns cb = Test_call client cb fr"
    by (simp add: harness_run_Test Test_unfold assms)
qed

section \<open>Facts about the client's operations on a new orchestrator\<close>

lemma fresh_fields:
  "ExpectedCalls (dialer (fresh_harness ns)) = []"
  "Calls (dialer (fresh_harness ns)) = []"
  "wg (fresh_harness ns) = 0"
  "events (fresh_harness ns) = Chan 0"
  "\<not> events_closed (fresh_harness ns)"
  "ConnectionString (EnsembleProvider (builder (fresh_harness ns))) = ''connectString''"
  "CanBeReadOnly (builder (fresh_harness ns)) = False"
  by (simp_all add: fresh_harness_def newMockZookeeperClient_def WithNamespace_def ConnectionString_def
      split: option.splits)

lemma dialing_Build_unprogrammed:
  assumes "ExpectedCalls (dialer c) = []"
  shows "Test_with (dialing_Build connString sessionTimeout canBeReadOnly) start close dct c t cb =
     \<lparr>mzc = Test_hooks c, tT = t, steps = [SetLogHooks],
      outcome = Aborted (Unprogrammed ''Dial'' [VString connString, VDuration sessionTimeout, VBool canBeReadOnly])\<rparr>"
  using assms
  by (simp add: Test_with_def Test_setup_with_def Test_start_with_def dialing_Build_def client_dial_def
      mockZookeeperDialer_Dial_def respond_def Called_def Test_hooks_fields Let_def)

lemma args_match_dial:
  "args_match (dial_arguments dct (fresh_harness ns)) [VString connString, VDuration sessionTimeout, VBool canBeReadOnly]
     = ((connString = ''connectString'' \<or> connString = ''mock.Anything'') \<and> sessionTimeout = dct \<and> \<not> canBeReadOnly)"
  by (auto simp add: fresh_dial_arguments arg_match_def Anything_def)

lemma Called_single:
  assumes "ExpectedCalls m = [e]" "Method e = n" "Repeatability e = ExactlyOnce" "totalCalls e = 0"
  shows "Called m n a =
     (if args_match (Arguments e) a
      then (m\<lparr>ExpectedCalls := [e\<lparr>totalCalls := 1\<rparr>], Calls := Calls m @ [(n, a)]\<rparr>, Inr (ReturnArguments e))
      else (m, Inl (Unprogrammed n a)))"
  by (simp add: Called_def matches_def exhausted_def assms)

lemma client_dial_programmed:
  assumes "ExpectedCalls (dialer c) = [dial_expectation dct c0]"
  shows "fst (fst (client_dial s d r c t)) =
     (if args_match (dial_arguments dct c0) [VString s, VDuration d, VBool r]
      then c\<lparr>dialer := (dialer c)\<lparr>ExpectedCalls := [(dial_expectation dct c0)\<lparr>totalCalls := 1\<rparr>],
                                   Calls := Calls (dialer c) @ [(''Dial'', [VString s, VDuration d, VBool r])]\<rparr>\<rparr>
      else c)"
    and "snd (client_dial s d r c t) =
     (if args_match (dial_arguments dct c0) [VString s, VDuration d, VBool r]
      then Inr None else Inl (Unprogrammed ''Dial'' [VString s, VDuration d, VBool r]))"
    and "\<not> args_match (dial_arguments dct c0) [VString s, VDuration d, VBool r] \<Longrightarrow>
         snd (fst (client_dial s d r c t)) = t"
proof -
  have e: "Method (dial_expectation dct c0) = ''Dial''" "Repeatability (dial_expectation dct c0) = ExactlyOnce"
    "totalCalls (dial_expectation dct c0) = 0" "Arguments (dial_expectation dct c0) = dial_arguments dct c0"
    "ReturnArguments (dial_expectation dct c0) = [VConn 0, VChan (Some (events c0)), VNil]"
    by (simp_all add: dial_expectation_def)
  note cs = Called_single [OF assms e(1) e(2) e(3), of "[VString s, VDuration d, VBool r]"]
  show "fst (fst (client_dial s d r c t)) =
     (if args_match (dial_arguments dct c0) [VString s, VDuration d, VBool r]
      then c\<lparr>dialer := (dialer c)\<lparr>ExpectedCalls := [(dial_expectation dct c0)\<lparr>totalCalls := 1\<rparr>],
                                   Calls := Calls (dialer c) @ [(''Dial'', [VString s, VDuration d, VBool r])]\<rparr>\<rparr>
      else c)"
    by (simp add: client_dial_def mockZookeeperDialer_Dial_def respond_def cs e
        args_Get_def args_Error_def bindR_def)
  show "snd (client_dial s d r c t) =
     (if args_match (dial_arguments dct c0) [VString s, VDuration d, VBool r]
      then Inr None else Inl (Unprogrammed ''Dial'' [VString s, VDuration d, VBool r]))"
    by (simp add: client_dial_def mockZookeeperDialer_Dial_def respond_def cs e
        args_Get_def args_Error_def bindR_def)
  show "\<not> args_match (dial_arguments dct c0) [VString s, VDuration d, VBool r] \<Longrightarrow>
         snd (fst (client_dial s d r c t)) = t"
    by (simp add: client_dial_def mockZookeeperDialer_Dial_def respond_def cs e)
qed

lemma fresh_programmed:
  "ExpectedCalls (dialer (Test_program dct (Test_hooks (fresh_harness ns)))) = [dial_expectation dct (fresh_harness ns)]"
  "Calls (dialer (Test_program dct (Test_hooks (fresh_harness ns)))) = []"
  by (simp_all add: Test_program_dialer Test_hooks_fields dial_hooks fresh_fields)
     (simp add: Test_program_def On_def Return_def Once_def Test_hooks_fields fresh_fields)

lemma dialing_Start_setup:
  "(case Test_setup_with client_Build (dialing_Start connString sessionTimeout canBeReadOnly) dct (fresh_harness ns) t cb of
      Inl r \<Rightarrow>
        \<not> args_match (dial_arguments dct (fresh_harness ns)) [VString connString, VDuration sessionTimeout, VBool canBeReadOnly]
        \<and> outcome r = Aborted (Unprogrammed ''Dial'' [VString connString, VDuration sessionTimeout, VBool canBeReadOnly])
        \<and> steps r = [SetLogHooks, BuildClient, ProgramDial]
        \<and> ExpectedCalls (dialer (mzc r)) = [dial_expectation dct (fresh_harness ns)]
        \<and> Calls (dialer (mzc r)) = []
        \<and> Test_with client_Build (dialing_Start connString sessionTimeout canBeReadOnly) close dct (fresh_harness ns) t cb = r
    | Inr (client, fr) \<Rightarrow>
        args_match (dial_arguments dct (fresh_harness ns)) [VString connString, VDuration sessionTimeout, VBool canBeReadOnly]
        \<and> client = Build (builder (fresh_harness ns))
        \<and> ExpectedCalls (dialer (f_c fr)) = [(dial_expectation dct (fresh_harness ns))\<lparr>totalCalls := 1\<rparr>]
        \<and> Calls (dialer (f_c fr)) = [(''Dial'', [VString connString, VDuration sessionTimeout, VBool canBeReadOnly])]
        \<and> Test_with client_Build (dialing_Start connString sessionTimeout canBeReadOnly) close dct (fresh_harness ns) t cb
            = Test_call_with close client cb fr)"
proof -
  let ?p = "Test_program dct (Test_hooks (fresh_harness ns))"
  obtain c3 t3 r where cd: "client_dial connString sessionTimeout canBeReadOnly ?p t = ((c3, t3), r)"
    by (metis surj_pair)
  note pr = client_dial_programmed [OF fresh_programmed(1) [of dct ns], where s = connString and d = sessionTimeout and r = canBeReadOnly and t = t]
  have st: "Test_start_with client_Build (dialing_Start connString sessionTimeout canBeReadOnly) dct (fresh_harness ns) t
      = (case r of Inl f \<Rightarrow> ((c3, t3), [SetLogHooks, BuildClient, ProgramDial], Inl f)
         | Inr err \<Rightarrow> ((c3, t3), [SetLogHooks, BuildClient, ProgramDial, StartClient],
                         Inr (Build (builder (fresh_harness ns)), err)))"
    by (simp add: Test_start_with_def client_Build_def dialing_Start_def Let_def cd Test_hooks_fields
        split: sum.splits)
  show ?thesis
  proof (cases "args_match (dial_arguments dct (fresh_harness ns)) [VString connString, VDuration sessionTimeout, VBool canBeReadOnly]")
    case True
    have c3: "c3 = ?p\<lparr>dialer := (dialer ?p)\<lparr>ExpectedCalls := [(dial_expectation dct (fresh_harness ns))\<lparr>totalCalls := 1\<rparr>],
                                   Calls := Calls (dialer ?p) @ [(''Dial'', [VString connString, VDuration sessionTimeout, VBool canBeReadOnly])]\<rparr>\<rparr>"
      using pr(1) True cd by simp
    have r: "r = Inr None" using pr(2) True cd by simp
    show ?thesis
      using True by (simp add: Test_setup_with_def Test_with_def st r resolve_c c3 fresh_programmed)
  next
    case False
    have c3: "c3 = ?p" using pr(1) False cd by simp
    have r: "r = Inl (Unprogrammed ''Dial'' [VString connString, VDuration sessionTimeout, VBool canBeReadOnly])"
      using pr(2) False cd by simp
    show ?thesis
      using False by (simp add: Test_setup_with_def Test_with_def st r c3 fresh_programmed)
  qed
qed

lemma harness_run_dialing:
  "harness_run dct t ns cb =
     Test_with client_Build (dialing_Start ''connectString'' dct False) client_Close dct (fresh_harness ns) t cb"
  by (simp add: harness_run_Test Test_def Test_with_def Test_setup_with_def Test_start_with_def
      client_Build_def client_Start_def dialing_Start_def Build_def Test_hooks_fields fresh_fields Let_def)

lemma harness_run_with:
  "harness_run dct t ns cb =
     Test_with client_Build (client_Start dct) client_Close dct (fresh_harness ns) t cb"
  by (simp add: harness_run_Test Test_def)

lemma Test_program_Calls: "Calls (dialer (Test_program dct c)) = Calls (dialer c)"
  by (simp add: Test_program_def On_def Return_def Once_def)

lemma fresh_setup:
  "\<exists>fr. Test_setup dct (fresh_harness ns) t cb = Inr (Build (builder (fresh_harness ns)), fr)
        \<and> ExpectedCalls (dialer (f_c fr)) = [(dial_expectation dct (fresh_harness ns))\<lparr>totalCalls := 1\<rparr>]
        \<and> Calls (dialer (f_c fr)) = [(''Dial'', dial_arguments dct (fresh_harness ns))]
        \<and> harness_run dct t ns cb = Test_call (Build (builder (fresh_harness ns))) cb fr"
  using Test_setup_frame [OF fresh_dialer, of dct ns t cb] fresh_frame [of dct ns t cb]
  by blast






lemma Multi_nil_batch:
  "VSlice None \<noteq> VSlice (Some [])"
  "snd (mockConn_Multi (Return (On (conn newMockZookeeperClient) ''Multi'' [VSlice (Some [])]) [VNil, VNil])
          t None)
     = Inl (Unprogrammed ''Multi'' [VSlice None])"
  "snd (mockConn_Multi (Return (On (conn newMockZookeeperClient) ''Multi'' [VSlice (Some [])]) [VNil, VNil])
          t (Some []))
     = Inr (None, None)"
  by (simp_all add: mockConn_Multi_def respond_def Called_def On_def Return_def matches_def arg_match_def
      Anything_def exhausted_def newMockZookeeperClient_def args_Get_def args_Error_def bindR_def)



lemmas run_defs =
  harness_run_def WithClient_def Test_def Test_with_def Test_setup_def Test_setup_with_def
  Test_call_def Test_call_with_def Test_teardown_def Test_teardown_with_def
  start_defs newMockZookeeperClient_def client_Close_def mockConn_Close_def close_events_def
  assert_NoError_def resolve_slot_def emit_def

lemmas eval_defs =
  resolve_slot_def fresh_harness_def newMockZookeeperClient_def mockConn_Get_def mockConn_Children_def
  respond_def Called_def On_def Return_def Once_def matches_def arg_match_def Anything_def exhausted_def
  args_Get_def args_Error_def bindR_def emit_def Logf_def silent_def

section \<open>The claims\<close>

text \<open>
  C1. \<^verbatim>\<open>Multi\<close> appends every sub-operation to the recorded sequence before it consults
  the substrate (the substrate is called on the double that already holds them), so the
  append stands whatever the substrate answers (a canned result, a canned error, or the
  panic of an unprogrammed or exhausted call). After any sequence
  of invocations on the double the recorded sequence is the one before, followed by the
  sub-operations of the \<^verbatim>\<open>Multi\<close> invocations in their order; from an empty sequence
  its length after N batches is the sum of the batch sizes; no operation of the double
  shortens it.
\<close>

theorem Multi_records_every_sub_operation:
  "operations (fst (fst (mockConn_Multi c t ops))) = operations c @ elems ops
   \<and> fst (fst (mockConn_Multi c t ops))
       = fst (Called (c\<lparr>operations := operations c @ elems ops\<rparr>) ''Multi'' [VSlice ops])
   \<and> operations (fst (conn_calls c t reqs)) = operations c @ concat (map sub_operations reqs)
   \<and> length (operations (fst (conn_calls (c\<lparr>operations := []\<rparr>) t (map Req_Multi batches))))
       = sum_list (map (\<lambda>ops. length (elems ops)) batches)
   \<and> prefix (operations c) (operations (fst (fst (conn_call c t req))))"
proof -
  have a: "operations (fst (fst (mockConn_Multi c t ops))) = operations c @ elems ops"
    using conn_call_operations [of c t "Req_Multi ops"] by (simp add: tag_state)
  have b: "operations (fst (conn_calls c t reqs)) = operations c @ concat (map sub_operations reqs)"
    by (rule conn_calls_operations)
  have c: "length (operations (fst (conn_calls (c\<lparr>operations := []\<rparr>) t (map Req_Multi batches))))
       = sum_list (map (\<lambda>ops. length (elems ops)) batches)"
    by (simp add: conn_calls_operations concat_Multi length_concat comp_def)
  have d: "prefix (operations c) (operations (fst (fst (conn_call c t req))))"
    by (simp add: conn_call_operations)
  have e: "fst (fst (mockConn_Multi c t ops))
       = fst (Called (c\<lparr>operations := operations c @ elems ops\<rparr>) ''Multi'' [VSlice ops])"
    by (simp add: mockConn_Multi_def respond_state)
  from a b c d e show ?thesis by blast
qed

text \<open>
  An instance: a batch of two sub-operations on the connection double of a new
  orchestrator, which has no expectation programmed. The substrate fails the call as
  unprogrammed, and both sub-operations are recorded.
\<close>

theorem Multi_records_every_sub_operation_witness:
  "operations (fst (fst (mockConn_Multi (conn newMockZookeeperClient) \<lparr>failed = False, logged = []\<rparr>
       (Some [VString ''create /a'', VString ''delete /b'']))))
     = [VString ''create /a'', VString ''delete /b'']
   \<and> snd (mockConn_Multi (conn newMockZookeeperClient) \<lparr>failed = False, logged = []\<rparr>
       (Some [VString ''create /a'', VString ''delete /b'']))
     = Inl (Unprogrammed ''Multi'' [VSlice (Some [VString ''create /a'', VString ''delete /b''])])"
proof -
  have rec: "operations (fst (fst (mockConn_Multi (conn newMockZookeeperClient) \<lparr>failed = False, logged = []\<rparr>
       (Some [VString ''create /a'', VString ''delete /b'']))))
     = operations (conn newMockZookeeperClient) @ elems (Some [VString ''create /a'', VString ''delete /b''])"
    by (rule Multi_records_every_sub_operation [THEN conjunct1])
  have empty: "operations (conn newMockZookeeperClient) = []"
    by (simp add: newMockZookeeperClient_def)
  have res: "snd (mockConn_Multi (conn newMockZookeeperClient) \<lparr>failed = False, logged = []\<rparr>
       (Some [VString ''create /a'', VString ''delete /b'']))
     = Inl (Unprogrammed ''Multi'' [VSlice (Some [VString ''create /a'', VString ''delete /b''])])"
    by (simp add: mockConn_Multi_def respond_def Called_def newMockZookeeperClient_def)
  show ?thesis
    using rec res by (simp only: empty append_Nil elems.simps simp_thms)
qed

text \<open>
  C8. For every operation of the connection double and every argument list, two runs
  that differ only in the log hook return the same values (or fail the same way) and
  leave the double in the same state but for the hook itself: the same expectation is
  consumed, the same call is recorded, the same sub-operations are appended. The hook
  acts on the test's log only.
\<close>

theorem log_hook_never_affects_results:
  "snd (conn_call (c\<lparr>log := hook1\<rparr>) t req) = snd (conn_call (c\<lparr>log := hook2\<rparr>) t req)
   \<and> (fst (fst (conn_call (c\<lparr>log := hook1\<rparr>) t req)))\<lparr>log := hook2\<rparr>
       = fst (fst (conn_call (c\<lparr>log := hook2\<rparr>) t req))"
  by (simp add: conn_call_log_result conn_call_log_state)

text \<open>
  An instance: \<^verbatim>\<open>Exists("/a")\<close>, which logs, on a double programmed to answer it, with
  no hook and with \<^verbatim>\<open>t.Logf\<close> as the hook.
\<close>

theorem log_hook_never_affects_results_witness:
  "snd (conn_call
          ((Return (On (conn newMockZookeeperClient) ''Exists'' [VString ''/a'']) [VBool True, VNil, VNil])\<lparr>log := None\<rparr>)
          \<lparr>failed = False, logged = []\<rparr> (Req_Exists ''/a''))
   = snd (conn_call
          ((Return (On (conn newMockZookeeperClient) ''Exists'' [VString ''/a'']) [VBool True, VNil, VNil])\<lparr>log := Some Logf\<rparr>)
          \<lparr>failed = False, logged = []\<rparr> (Req_Exists ''/a''))"
  by (rule log_hook_never_affects_results [THEN conjunct1])

text \<open>
  C3. In every harness run whose callback declares a parameter of a type outside the
  recognized set, the orchestrator reports a failure that names the type while it
  resolves the parameters (\<^verbatim>\<open>t.Errorf("unknown arg type: %s", ...)\<close>, which marks the
  test failed), the slot keeps the zero \<^verbatim>\<open>reflect.Value\<close>, and the call through
  \<^verbatim>\<open>reflect\<close> panics on it before the callback is entered: the run is aborted, the
  callback's body never starts, and the run is the same whatever the body is.
\<close>

theorem unknown_parameter_type_fails_before_invocation:
  assumes "ty \<in> set (params cb)" and "\<not> recognized ty"
  shows "outcome (harness_run dct t ns cb) = Aborted ReflectZeroValue
       \<and> failed (tT (harness_run dct t ns cb))
       \<and> (''unknown arg type: %s'', [VType ty]) \<in> set (logged (tT (harness_run dct t ns cb)))
       \<and> CallbackInvoked \<notin> set (steps (harness_run dct t ns cb))
       \<and> harness_run dct t ns (cb\<lparr>body := b\<rparr>) = harness_run dct t ns cb"
proof -
  let ?c = "fresh_harness ns"
  let ?init = "\<lparr>f_args = replicate (length (params cb)) None,
             f_c = fst (fst (Test_start dct ?c t)),
             f_t = snd (fst (Test_start dct ?c t)),
             f_waiting = False,
             f_steps = [SetLogHooks, BuildClient, ProgramDial, StartClient]\<rparr>"
  let ?fr = "resolve (Build (builder ?c)) 0 (params cb) ?init"
  have su: "Test_setup dct ?c t cb = Inr (Build (builder ?c), ?fr)"
    by (rule Test_setup_frame [OF fresh_dialer])
  have args: "f_args ?fr = map (matching_handle (Build (builder ?c)) (f_c ?init)) (params cb)"
    by (rule resolve_args_fresh) simp
  have zero: "those (f_args ?fr) = None"
    using unrecognized_zero [OF assms] by (simp only: args)
  have run: "Test dct ?c t cb =
      \<lparr>mzc = f_c ?fr, tT = f_t ?fr, steps = f_steps ?fr, outcome = Aborted ReflectZeroValue\<rparr>"
    by (simp only: Test_unfold su sum.case prod.case Test_call_def Test_call_with_def zero option.case)
  have run': "Test dct ?c t (cb\<lparr>body := b\<rparr>) = Test dct ?c t cb"
    using zero by (simp add: Test_unfold Test_setup_body su Test_call_def Test_call_with_def)
  have f: "failed (f_t ?fr)"
    using assms by (auto simp add: resolve_failed list_ex_iff)
  have l: "(''unknown arg type: %s'', [VType ty]) \<in> set (logged (f_t ?fr))"
    using assms by (simp add: resolve_logged)
  have s: "CallbackInvoked \<notin> set (f_steps ?fr)"
    using resolution_steps_only [of "params cb"] by (auto simp add: resolve_steps)
  show ?thesis
    using f l s run' by (simp add: harness_run_Test run)
qed

text \<open>
  An instance: \<^verbatim>\<open>func(conn *mockConn, n int)\<close>, run without a namespace. The body, had
  it run, would have returned at once.
\<close>

theorem unknown_parameter_type_fails_before_invocation_witness:
  "T_other ''int'' \<in> set (params \<lparr>params = [T_ptr_mockConn, T_other ''int''], body = (\<lambda>args c t. Returned c t [])\<rparr>)
   \<and> \<not> recognized (T_other ''int'')
   \<and> outcome (harness_run 15000000000 \<lparr>failed = False, logged = []\<rparr> None
        \<lparr>params = [T_ptr_mockConn, T_other ''int''], body = (\<lambda>args c t. Returned c t [])\<rparr>)
      = Aborted ReflectZeroValue
   \<and> failed (tT (harness_run 15000000000 \<lparr>failed = False, logged = []\<rparr> None
        \<lparr>params = [T_ptr_mockConn, T_other ''int''], body = (\<lambda>args c t. Returned c t [])\<rparr>))
   \<and> CallbackInvoked \<notin> set (steps (harness_run 15000000000 \<lparr>failed = False, logged = []\<rparr> None
        \<lparr>params = [T_ptr_mockConn, T_other ''int''], body = (\<lambda>args c t. Returned c t [])\<rparr>))"
proof -
  have h1: "T_other ''int'' \<in> set (params \<lparr>params = [T_ptr_mockConn, T_other ''int''], body = (\<lambda>args c t. Returned c t [])\<rparr>)"
    by simp
  have h2: "\<not> recognized (T_other ''int'')"
    by (simp add: recognized_def)
  show ?thesis
    using h1 h2
      unknown_parameter_type_fails_before_invocation [OF h1 h2, of 15000000000 "\<lparr>failed = False, logged = []\<rparr>" None]
    by blast
qed



text \<open>
  C5, as the code has it. The orchestrator builds the client first (line 382), on a
  dialer double that holds no dial expectation yet: whatever the start and the close of
  the client are, a build that dialed, with any three arguments, would find nothing
  programmed, be failed by the substrate as unprogrammed, and end the run right after
  the log hooks were set. The framework's own build leaves the harness as it is. The
  single expected dial call is programmed after the build (line 384), which appends one
  expectation and records no call, and before the start (line 386): in every harness
  run the start finds the expectation and consumes it with the one dial of the run.
\<close>

theorem client_built_before_dial_programmed:
  "Test_with (dialing_Build connString sessionTimeout canBeReadOnly) start close dct (fresh_harness ns) t cb
     = \<lparr>mzc = Test_hooks (fresh_harness ns), tT = t, steps = [SetLogHooks],
        outcome = Aborted (Unprogrammed ''Dial''
                    [VString connString, VDuration sessionTimeout, VBool canBeReadOnly])\<rparr>
   \<and> ExpectedCalls (dialer (Test_hooks (fresh_harness ns))) = []
   \<and> client_Build b c t = ((c, t), Inr (Build b))
   \<and> ExpectedCalls (dialer (Test_program dct c)) = ExpectedCalls (dialer c) @ [dial_expectation dct c]
   \<and> Calls (dialer (Test_program dct c)) = Calls (dialer c)
   \<and> harness_run dct t ns cb
       = Test_with client_Build (client_Start dct) client_Close dct (fresh_harness ns) t cb
   \<and> (\<exists>fr. Test_setup dct (fresh_harness ns) t cb = Inr (Build (builder (fresh_harness ns)), fr)
          \<and> ExpectedCalls (dialer (f_c fr)) = [(dial_expectation dct (fresh_harness ns))\<lparr>totalCalls := 1\<rparr>]
          \<and> Calls (dialer (f_c fr)) = [(''Dial'', dial_arguments dct (fresh_harness ns))]
          \<and> harness_run dct t ns cb = Test_call (Build (builder (fresh_harness ns))) cb fr)
   \<and> prefix [SetLogHooks, BuildClient, ProgramDial, StartClient] (steps (harness_run dct t ns cb))"
proof -
  have p: "prefix [SetLogHooks, BuildClient, ProgramDial, StartClient] (steps (harness_run dct t ns cb))"
    using harness_run_steps [of cb dct t ns] by (meson append_prefixD)
  show ?thesis
    using p fresh_setup [of dct ns t cb]
    by (simp add: dialing_Build_unprogrammed fresh_dialer Test_hooks_fields client_Build_def
        Test_program_dialer Test_program_Calls harness_run_with)
qed

text \<open>
  An instance: a build that dials another address, on an orchestrator with a namespace.
\<close>

theorem client_built_before_dial_programmed_witness:
  "outcome (Test_with (dialing_Build ''otherhost:2181'' 15000000000 False) (client_Start 15000000000) client_Close
        15000000000 (fresh_harness (Some ''ns'')) \<lparr>failed = False, logged = []\<rparr>
        \<lparr>params = [], body = (\<lambda>args c t. Returned c t [])\<rparr>)
     = Aborted (Unprogrammed ''Dial'' [VString ''otherhost:2181'', VDuration 15000000000, VBool False])"
  by (simp add: client_built_before_dial_programmed [THEN conjunct1])

text \<open>
  C5 as the specification states it, "programs the dialer with the single expected dial
  call, then builds the client", fails on every run: a build that dials with exactly the
  three arguments the orchestrator programs finds no expectation on the dialer double,
  because the orchestrator programs them only after the build has returned.
\<close>

theorem dial_programmed_before_build_counterexample:
  "[VString ''connectString'', VDuration 15000000000, VBool False]
     = dial_arguments 15000000000 (fresh_harness None)
   \<and> outcome (Test_with (dialing_Build ''connectString'' 15000000000 False) (client_Start 15000000000) client_Close
        15000000000 (fresh_harness None) \<lparr>failed = False, logged = []\<rparr>
        \<lparr>params = [], body = (\<lambda>args c t. Returned c t [])\<rparr>)
     = Aborted (Unprogrammed ''Dial'' [VString ''connectString'', VDuration 15000000000, VBool False])
   \<and> ExpectedCalls (dialer (mzc (Test_with (dialing_Build ''connectString'' 15000000000 False)
        (client_Start 15000000000) client_Close
        15000000000 (fresh_harness None) \<lparr>failed = False, logged = []\<rparr>
        \<lparr>params = [], body = (\<lambda>args c t. Returned c t [])\<rparr>))) = []"
  by (simp add: dialing_Build_unprogrammed fresh_dialer fresh_dial_arguments Test_hooks_fields)

text \<open>
  C6, as the code has it. A harness run is \<^verbatim>\<open>Test\<close> on a new orchestrator with the
  framework's operations, whose start is a dial with the connect string
  \<^verbatim>\<open>"connectString"\<close>, the default timeout and the read-only flag \<^verbatim>\<open>false\<close>. In every
  run the orchestrator programs one dial expectation, with exactly three arguments: the
  connect string of the configuration's address resolver, the fixed default timeout and
  the configuration's read-only flag. For a client whose start dials with any three
  arguments: when they match the programmed ones the start consumes the expectation and
  the run goes on to the callback; otherwise the substrate finds no expectation, the
  dial is failed as unprogrammed and the run is aborted with the expectation
  unconsumed. Three arguments match when the timeout and the flag are the programmed
  ones and the connect string is the programmed one or the substrate's wildcard string.
\<close>

theorem expected_dial_call:
  "harness_run dct t ns cb
     = Test_with client_Build (dialing_Start ''connectString'' dct False) client_Close dct (fresh_harness ns) t cb
   \<and> ExpectedCalls (dialer (Test_program dct c)) = ExpectedCalls (dialer c) @ [dial_expectation dct c]
   \<and> Arguments (dial_expectation dct c) =
       [VString (ConnectionString (EnsembleProvider (builder c))), VDuration dct, VBool (CanBeReadOnly (builder c))]
   \<and> dial_arguments dct (fresh_harness ns) = [VString ''connectString'', VDuration dct, VBool False]
   \<and> args_match (dial_arguments dct (fresh_harness ns))
         [VString connString, VDuration sessionTimeout, VBool canBeReadOnly]
       = ((connString = ''connectString'' \<or> connString = ''mock.Anything'') \<and> sessionTimeout = dct
          \<and> \<not> canBeReadOnly)
   \<and> (case Test_setup_with client_Build (dialing_Start connString sessionTimeout canBeReadOnly) dct
              (fresh_harness ns) t cb of
         Inl r \<Rightarrow>
           \<not> args_match (dial_arguments dct (fresh_harness ns))
                [VString connString, VDuration sessionTimeout, VBool canBeReadOnly]
           \<and> outcome r = Aborted (Unprogrammed ''Dial''
                            [VString connString, VDuration sessionTimeout, VBool canBeReadOnly])
           \<and> steps r = [SetLogHooks, BuildClient, ProgramDial]
           \<and> ExpectedCalls (dialer (mzc r)) = [dial_expectation dct (fresh_harness ns)]
           \<and> Calls (dialer (mzc r)) = []
           \<and> Test_with client_Build (dialing_Start connString sessionTimeout canBeReadOnly) close dct
                (fresh_harness ns) t cb = r
       | Inr (client, fr) \<Rightarrow>
           args_match (dial_arguments dct (fresh_harness ns))
              [VString connString, VDuration sessionTimeout, VBool canBeReadOnly]
           \<and> client = Build (builder (fresh_harness ns))
           \<and> ExpectedCalls (dialer (f_c fr)) = [(dial_expectation dct (fresh_harness ns))\<lparr>totalCalls := 1\<rparr>]
           \<and> Calls (dialer (f_c fr))
               = [(''Dial'', [VString connString, VDuration sessionTimeout, VBool canBeReadOnly])]
           \<and> Test_with client_Build (dialing_Start connString sessionTimeout canBeReadOnly) close dct
                (fresh_harness ns) t cb
               = Test_call_with close client cb fr)"
proof -
  have a: "Arguments (dial_expectation dct c) =
       [VString (ConnectionString (EnsembleProvider (builder c))), VDuration dct, VBool (CanBeReadOnly (builder c))]"
    by (simp add: dial_expectation_def dial_arguments_def)
  show ?thesis
    by (intro conjI harness_run_dialing Test_program_dialer a fresh_dial_arguments args_match_dial
        dialing_Start_setup)
qed

text \<open>An instance: a client that dials another address, on a harness without a namespace.\<close>

theorem expected_dial_call_witness:
  "\<not> args_match (dial_arguments 15000000000 (fresh_harness None))
        [VString ''otherhost:2181'', VDuration 15000000000, VBool False]
   \<and> outcome (Test_with client_Build (dialing_Start ''otherhost:2181'' 15000000000 False) client_Close
        15000000000 (fresh_harness None) \<lparr>failed = False, logged = []\<rparr>
        \<lparr>params = [], body = (\<lambda>args c t. Returned c t [])\<rparr>)
     = Aborted (Unprogrammed ''Dial'' [VString ''otherhost:2181'', VDuration 15000000000, VBool False])"
proof -
  note th = expected_dial_call [where dct = 15000000000 and t = "\<lparr>failed = False, logged = []\<rparr>" and ns = None
      and cb = "\<lparr>params = [], body = (\<lambda>args c t. Returned c t [])\<rparr>" and connString = "''otherhost:2181''"
      and sessionTimeout = 15000000000 and canBeReadOnly = False and close = client_Close]
  have "args_match (dial_arguments 15000000000 (fresh_harness None))
        [VString ''otherhost:2181'', VDuration 15000000000, VBool False]
      = ((''otherhost:2181'' = ''connectString'' \<or> ''otherhost:2181'' = ''mock.Anything'')
         \<and> (15000000000 :: int64) = 15000000000 \<and> \<not> False)"
    by (rule th [THEN conjunct2, THEN conjunct2, THEN conjunct2, THEN conjunct2, THEN conjunct1])
  then have m: "\<not> args_match (dial_arguments 15000000000 (fresh_harness None))
        [VString ''otherhost:2181'', VDuration 15000000000, VBool False]"
    by simp
  note c = th [THEN conjunct2, THEN conjunct2, THEN conjunct2, THEN conjunct2, THEN conjunct2]
  from c m show ?thesis
    by (cases "Test_setup_with client_Build (dialing_Start ''otherhost:2181'' 15000000000 False) 15000000000
              (fresh_harness None) \<lparr>failed = False, logged = []\<rparr> \<lparr>params = [], body = (\<lambda>args c t. Returned c t [])\<rparr>")
       auto
qed

text \<open>
  C6 as the specification states it, a dial with any other argument triple is a hard
  failure, fails for the substrate's wildcard: a client that dials
  \<^verbatim>\<open>"mock.Anything"\<close> with the programmed timeout and flag is answered from the
  programmed expectation, the run completes and the test is not marked failed.
\<close>

theorem wildcard_dial_counterexample:
  "[VString ''mock.Anything'', VDuration 15000000000, VBool False]
     \<noteq> dial_arguments 15000000000 (fresh_harness None)
   \<and> snd (mockZookeeperDialer_Dial (dialer (Test_program 15000000000 (Test_hooks (fresh_harness None))))
            \<lparr>failed = False, logged = []\<rparr> ''mock.Anything'' 15000000000 False)
       = Inr (Some 0, Some (Chan 0), None)
   \<and> outcome (Test_with client_Build (dialing_Start ''mock.Anything'' 15000000000 False) client_Close
        15000000000 (fresh_harness None) \<lparr>failed = False, logged = []\<rparr>
        \<lparr>params = [], body = (\<lambda>args c t. Returned c t [])\<rparr>) = Completed
   \<and> \<not> failed (tT (Test_with client_Build (dialing_Start ''mock.Anything'' 15000000000 False) client_Close
        15000000000 (fresh_harness None) \<lparr>failed = False, logged = []\<rparr>
        \<lparr>params = [], body = (\<lambda>args c t. Returned c t [])\<rparr>))"
  by (simp add: dial_arguments_def ConnectionString_def run_defs dialing_Start_def fresh_harness_def
      AssertExpectations_def unmet_def methodWasCalled_def silent_def Logf_def)




text \<open>
  C10, as the code has it. \<^verbatim>\<open>GetDefaultAcl\<close> and \<^verbatim>\<open>GetAclForPath\<close> assert the type of
  the first canned value without a check: when the selected expectation's first value is
  not an ACL list (the nil interface value is not one), the call panics. Every type
  assertion another double makes is checked: no method of another double fails with a
  type-assertion panic, and a value such a method returns is the canned value of its
  slot or the nil value of the slot's type. (Slots read through the substrate's
  \<^verbatim>\<open>String\<close>, \<^verbatim>\<open>Bool\<close> and \<^verbatim>\<open>Error\<close> accessors are returned as programmed or the
  accessor panics.)
\<close>

theorem ACL_double_asserts_unchecked:
  "(selects p ''GetDefaultAcl'' [] (v # rest) \<and> \<not> is_ACLs v \<longrightarrow>
      snd (mockACLProvider_GetDefaultAcl p t) = Inl (TypeAssertion ''[]zk.ACL''))
   \<and> (selects p ''GetAclForPath'' [VString path] (v # rest) \<and> \<not> is_ACLs v \<longrightarrow>
        snd (mockACLProvider_GetAclForPath p t path) = Inl (TypeAssertion ''[]zk.ACL''))
   \<and> \<not> is_ACLs VNil
   \<and> snd (conn_call c t req) \<noteq> Inl (TypeAssertion s)
   \<and> (selects c (request_name req) (request_args req) rets \<and> snd (conn_call c t req) = Inr res \<longrightarrow>
        (\<forall>k<length (canned res). k < length rets \<and> canned_or_zero (canned res ! k) (rets ! k)))
   \<and> snd (mockZookeeperDialer_Dial d t connString sessionTimeout canBeReadOnly) \<noteq> Inl (TypeAssertion s)
   \<and> (selects d ''Dial'' [VString connString, VDuration sessionTimeout, VBool canBeReadOnly] rets
        \<and> snd (mockZookeeperDialer_Dial d t connString sessionTimeout canBeReadOnly) = Inr (cn, ev, err) \<longrightarrow>
        2 < length rets
        \<and> canned_or_zero (case cn of None \<Rightarrow> VNil | Some n \<Rightarrow> VConn n) (rets ! 0)
        \<and> canned_or_zero (VChan ev) (rets ! 1) \<and> val_of_error err = rets ! 2)
   \<and> snd (mockCompressionProvider_Compress cp t path data) \<noteq> Inl (TypeAssertion s)
   \<and> (selects cp ''Compress'' [VString path, VBytes data] rets
        \<and> snd (mockCompressionProvider_Compress cp t path data) = Inr (out, err) \<longrightarrow>
        1 < length rets \<and> canned_or_zero (VBytes out) (rets ! 0) \<and> val_of_error err = rets ! 1)
   \<and> snd (mockCompressionProvider_Decompress cp t path data) \<noteq> Inl (TypeAssertion s)
   \<and> (selects cp ''Decompress'' [VString path, VBytes data] rets
        \<and> snd (mockCompressionProvider_Decompress cp t path data) = Inr (out, err) \<longrightarrow>
        1 < length rets \<and> canned_or_zero (VBytes out) (rets ! 0) \<and> val_of_error err = rets ! 1)
   \<and> snd (mockEnsurePath_ExcludingLast e t) \<noteq> Inl (TypeAssertion s)
   \<and> (selects e ''ExcludingLast'' [] rets \<and> snd (mockEnsurePath_ExcludingLast e t) = Inr ret \<longrightarrow>
        0 < length rets \<and> canned_or_zero (case ret of None \<Rightarrow> VNil | Some n \<Rightarrow> VEnsurePath n) (rets ! 0))
   \<and> snd (mockEnsurePath_Ensure e t client) \<noteq> Inl (TypeAssertion s)
   \<and> snd (mockEnsurePathHelper_Ensure h t client path makeLastNode) \<noteq> Inl (TypeAssertion s)
   \<and> snd (mockCloseable_Close cl t) \<noteq> Inl (TypeAssertion s)
   \<and> snd (mockTracerDriver_AddTime tr t name dur) \<noteq> Inl (TypeAssertion s)
   \<and> snd (mockTracerDriver_AddCount tr t name increment) \<noteq> Inl (TypeAssertion s)
   \<and> snd (mockRetrySleeper_SleepFor sl t time) \<noteq> Inl (TypeAssertion s)"
proof -
  have nil: "\<not> is_ACLs VNil" by (simp add: is_ACLs_def)
  show ?thesis
    using ACL_unchecked(1) [of p v rest t] ACL_unchecked(2) [of p path v rest t]
      conn_call_lenient [of c req rets t res]
      other_doubles_lenient(1) [of d connString sessionTimeout canBeReadOnly rets t cn ev err]
      other_doubles_lenient(2) [of cp path data rets t out err]
      other_doubles_lenient(3) [of cp path data rets t out err]
      other_doubles_lenient(4) [of e rets t ret]
    by (simp add: nil conn_call_no_TypeAssertion other_doubles_no_TypeAssertion)
qed

text \<open>
  An instance: the ACL provider programmed with \<^verbatim>\<open>Return(nil)\<close> panics in
  \<^verbatim>\<open>GetDefaultAcl\<close>.
\<close>

theorem ACL_double_asserts_unchecked_witness:
  "selects (Return (On \<lparr>ExpectedCalls = [], Calls = []\<rparr> ''GetDefaultAcl'' []) [VNil])
      ''GetDefaultAcl'' [] (VNil # [])
   \<and> \<not> is_ACLs VNil
   \<and> snd (mockACLProvider_GetDefaultAcl
            (Return (On \<lparr>ExpectedCalls = [], Calls = []\<rparr> ''GetDefaultAcl'' []) [VNil]) \<lparr>failed = False, logged = []\<rparr>)
     = Inl (TypeAssertion ''[]zk.ACL'')"
proof -
  have h: "selects (Return (On \<lparr>ExpectedCalls = [], Calls = []\<rparr> ''GetDefaultAcl'' []) [VNil])
      ''GetDefaultAcl'' [] (VNil # [])
   \<and> \<not> is_ACLs VNil"
    by (simp add: selects_def On_def Return_def matches_def exhausted_def is_ACLs_def)
  have r: "snd (mockACLProvider_GetDefaultAcl
            (Return (On \<lparr>ExpectedCalls = [], Calls = []\<rparr> ''GetDefaultAcl'' []) [VNil]) \<lparr>failed = False, logged = []\<rparr>)
     = Inl (TypeAssertion ''[]zk.ACL'')"
    by (rule ACL_double_asserts_unchecked [THEN conjunct1, THEN mp, OF h])
  from h r show ?thesis by blast
qed

text \<open>
  C10 as the specification states it, "every other double yields nil/zero results for
  mistyped programmed values", fails for a slot that is read through the substrate's
  typed accessor: \<^verbatim>\<open>Create\<close> programmed to return the number 5 as the created path
  panics in \<^verbatim>\<open>args.String(0)\<close>.
\<close>

theorem mistyped_path_panics_counterexample:
  "snd (mockConn_Create
          (Return (On (conn newMockZookeeperClient) ''Create'' [VString ''/a'', VBytes None, VInt32 0, VACLs None])
             [VInt32 5, VNil])
          \<lparr>failed = False, logged = []\<rparr> ''/a'' None 0 None)
   = Inl (WrongType ''String'' 0)"
  by (simp add: On_def Return_def matches_def arg_match_def Anything_def exhausted_def newMockZookeeperClient_def
      mockConn_Create_def respond_def Called_def args_Get_def args_String_def bindR_def)

text \<open>
  C2, as the code has it. In every harness run on a new orchestrator in which the
  callback's parameters are all recognized, the callback returns, the wait (if there is
  one) ends, and the callback has left the event channel open, the dialer double's
  expectations and calls as they were, and no \<^verbatim>\<open>Close\<close> expectation of its own on the
  connection double. Whatever the close operation of the client is, the orchestrator
  calls it on a state in which the one dial expectation is consumed and its one call
  recorded (the dial has happened), the one \<^verbatim>\<open>Close\<close> expectation is programmed and
  the event channel is still open; when that call returns with the channel open, the
  orchestrator closes the channel on the state the call returned, and the run
  completes. With the framework's own close, which closes the connection once: the
  dialer holds exactly one expectation, the programmed dial, consumed once by the start
  of the client; the connection double holds exactly one \<^verbatim>\<open>Close\<close> expectation,
  consumed once by the close of the client; and the event channel is closed once, after
  the close of the client has returned.
\<close>

theorem one_dial_one_close_per_completed_run:
  assumes su: "Test_setup dct (fresh_harness ns) t cb = Inr (client, fr)"
      and ar: "those (f_args fr) = Some args"
      and ret: "body cb args (f_c fr) (f_t fr) = Returned c' t' bg"
      and wt: "(if f_waiting fr then wg_Wait bg (c', t') else (True, c', t')) = (True, c'', t'')"
      and op: "\<not> events_closed c''"
      and de: "ExpectedCalls (dialer c'') = ExpectedCalls (dialer (f_c fr))"
      and dc: "Calls (dialer c'') = Calls (dialer (f_c fr))"
      and nc: "\<not> list_ex (\<lambda>e. Method e = ''Close'') (ExpectedCalls (conn c''))"
      and cl: "close client (c''\<lparr>conn := Once (Return (On (conn c'') ''Close'' []) [])\<rparr>) t''
                 = ((c2, t2), Inr err)"
      and op2: "\<not> events_closed c2"
  shows "Test_call_with close client cb fr =
           \<lparr>mzc = c2\<lparr>events_closed := True\<rparr>,
            tT = AssertExpectations (compress c2)
                   (AssertExpectations (dialer c2) (AssertExpectations (conn c2) (assert_NoError t2 err))),
            steps = [SetLogHooks, BuildClient, ProgramDial, StartClient] @ resolution_steps (params cb)
                    @ [CallbackInvoked, CallbackReturned] @ (if f_waiting fr then [AwaitCompletion] else [])
                    @ [ProgramClose, CloseClient, CloseEvents, AssertAll],
            outcome = Completed\<rparr>
       \<and> ExpectedCalls (dialer c'') = [(dial_expectation dct (fresh_harness ns))\<lparr>totalCalls := 1\<rparr>]
       \<and> Calls (dialer c'') = [(''Dial'', dial_arguments dct (fresh_harness ns))]
       \<and> filter (\<lambda>e. Method e = ''Close'') (ExpectedCalls (Once (Return (On (conn c'') ''Close'' []) [])))
           = [close_expectation]
       \<and> harness_run dct t ns cb = Test_call_with client_Close client cb fr
       \<and> client_Close client (c''\<lparr>conn := Once (Return (On (conn c'') ''Close'' []) [])\<rparr>) t''
           = ((c''\<lparr>conn := (conn c'')\<lparr>ExpectedCalls := ExpectedCalls (conn c'') @ [close_expectation\<lparr>totalCalls := 1\<rparr>],
                                        Calls := Calls (conn c'') @ [(''Close'', [])]\<rparr>\<rparr>, t''), Inr None)
       \<and> outcome (harness_run dct t ns cb) = Completed
       \<and> ExpectedCalls (dialer (mzc (harness_run dct t ns cb)))
           = [(dial_expectation dct (fresh_harness ns))\<lparr>totalCalls := 1\<rparr>]
       \<and> Calls (dialer (mzc (harness_run dct t ns cb))) = [(''Dial'', dial_arguments dct (fresh_harness ns))]
       \<and> filter (\<lambda>e. Method e = ''Close'') (ExpectedCalls (conn (mzc (harness_run dct t ns cb))))
           = [close_expectation\<lparr>totalCalls := 1\<rparr>]
       \<and> events_closed (mzc (harness_run dct t ns cb))
       \<and> steps (harness_run dct t ns cb)
           = [SetLogHooks, BuildClient, ProgramDial, StartClient] @ resolution_steps (params cb)
             @ [CallbackInvoked, CallbackReturned] @ (if f_waiting fr then [AwaitCompletion] else [])
             @ [ProgramClose, CloseClient, CloseEvents, AssertAll]
       \<and> precedes StartClient CloseClient (steps (harness_run dct t ns cb))
       \<and> precedes CloseClient CloseEvents (steps (harness_run dct t ns cb))
       \<and> count_list (steps (harness_run dct t ns cb)) ProgramDial = 1
       \<and> count_list (steps (harness_run dct t ns cb)) StartClient = 1
       \<and> count_list (steps (harness_run dct t ns cb)) ProgramClose = 1
       \<and> count_list (steps (harness_run dct t ns cb)) CloseClient = 1
       \<and> count_list (steps (harness_run dct t ns cb)) CloseEvents = 1"
proof -
  note ff = fresh_frame [OF su]
  let ?done = "f_steps fr @ [CallbackInvoked, CallbackReturned] @ (if f_waiting fr then [AwaitCompletion] else [])"
  let ?all = "[SetLogHooks, BuildClient, ProgramDial, StartClient] @ resolution_steps (params cb)
             @ [CallbackInvoked, CallbackReturned] @ (if f_waiting fr then [AwaitCompletion] else [])
             @ [ProgramClose, CloseClient, CloseEvents, AssertAll]"
  have gen: "\<And>close. Test_call_with close client cb fr = Test_teardown_with close client c'' t'' ?done"
    using wt by (simp add: Test_call_with_returned [OF ar ret] split: if_splits)
  have g: "Test_call_with close client cb fr =
           \<lparr>mzc = c2\<lparr>events_closed := True\<rparr>,
            tT = AssertExpectations (compress c2)
                   (AssertExpectations (dialer c2) (AssertExpectations (conn c2) (assert_NoError t2 err))),
            steps = ?all, outcome = Completed\<rparr>"
    by (simp only: gen ff(2) append_assoc
        Test_teardown_with_completed [where close = close and client = client and c = c'' and t = t'', OF cl op2])
  have d0: "ExpectedCalls (dialer c'') = [(dial_expectation dct (fresh_harness ns))\<lparr>totalCalls := 1\<rparr>]"
    by (simp add: de ff(5))
  have d0': "Calls (dialer c'') = [(''Dial'', dial_arguments dct (fresh_harness ns))]"
    by (simp add: dc ff(6))
  have pc: "filter (\<lambda>e. Method e = ''Close'') (ExpectedCalls (Once (Return (On (conn c'') ''Close'' []) [])))
           = [close_expectation]"
    using nc by (simp add: program_Close filter_unmatched close_expectation_def)
  have hr: "harness_run dct t ns cb = Test_call_with client_Close client cb fr"
    by (simp add: ff(7) Test_call_def)
  note cc = client_Close_programmed [OF nc, of client t'']
  have run: "harness_run dct t ns cb =
           \<lparr>mzc = c''\<lparr>conn := (conn c'')\<lparr>ExpectedCalls := ExpectedCalls (conn c'') @ [close_expectation\<lparr>totalCalls := 1\<rparr>],
                                        Calls := Calls (conn c'') @ [(''Close'', [])]\<rparr>,
                       events_closed := True\<rparr>,
            tT = tT (harness_run dct t ns cb),
            steps = ?all, outcome = Completed\<rparr>"
    using op
    by (simp add: hr gen ff(2)
        Test_teardown_with_completed [where close = client_Close and client = client and c = c'' and t = t'', OF cc])
  have o: "outcome (harness_run dct t ns cb) = Completed" by (subst run) simp
  have st: "steps (harness_run dct t ns cb) = ?all" by (subst run) simp
  have d1: "ExpectedCalls (dialer (mzc (harness_run dct t ns cb)))
           = [(dial_expectation dct (fresh_harness ns))\<lparr>totalCalls := 1\<rparr>]"
    by (subst run) (simp add: d0)
  have d2: "Calls (dialer (mzc (harness_run dct t ns cb))) = [(''Dial'', dial_arguments dct (fresh_harness ns))]"
    by (subst run) (simp add: d0')
  have cf: "filter (\<lambda>e. Method e = ''Close'') (ExpectedCalls (conn (mzc (harness_run dct t ns cb))))
           = [close_expectation\<lparr>totalCalls := 1\<rparr>]"
    using nc by (subst run) (simp add: filter_unmatched close_expectation_def)
  have e: "events_closed (mzc (harness_run dct t ns cb))" by (subst run) simp
  have only: "set (resolution_steps (params cb)) \<subseteq> {RegisterPending, ReportUnknownType}"
    by (rule resolution_steps_only)
  have zero: "count_list (resolution_steps (params cb)) ProgramDial = 0"
    "count_list (resolution_steps (params cb)) StartClient = 0"
    "count_list (resolution_steps (params cb)) ProgramClose = 0"
    "count_list (resolution_steps (params cb)) CloseClient = 0"
    "count_list (resolution_steps (params cb)) CloseEvents = 0"
    using only by (auto simp add: count_list_0_iff)
  have p1: "precedes StartClient CloseClient (steps (harness_run dct t ns cb))"
    by (simp add: st)
  have mem: "CloseClient \<in> set ([SetLogHooks, BuildClient, ProgramDial, StartClient] @ resolution_steps (params cb)
             @ [CallbackInvoked, CallbackReturned] @ (if f_waiting fr then [AwaitCompletion] else [])
             @ [ProgramClose, CloseClient])"
    "CloseEvents \<notin> set ([SetLogHooks, BuildClient, ProgramDial, StartClient] @ resolution_steps (params cb)
             @ [CallbackInvoked, CallbackReturned] @ (if f_waiting fr then [AwaitCompletion] else [])
             @ [ProgramClose, CloseClient])"
    using only by auto
  have p2: "precedes CloseClient CloseEvents (steps (harness_run dct t ns cb))"
    using precedes_append [OF mem, of "[CloseEvents, AssertAll]"] by (simp add: st)
  have counts: "count_list (steps (harness_run dct t ns cb)) ProgramDial = 1"
    "count_list (steps (harness_run dct t ns cb)) StartClient = 1"
    "count_list (steps (harness_run dct t ns cb)) ProgramClose = 1"
    "count_list (steps (harness_run dct t ns cb)) CloseClient = 1"
    "count_list (steps (harness_run dct t ns cb)) CloseEvents = 1"
    by (simp_all add: st zero)
  from g d0 d0' pc hr cc o d1 d2 cf e st p1 p2 counts show ?thesis by blast
qed

text \<open>
  An instance, the specification's scenario: the callback takes the client and the
  connection double and reads \<^verbatim>\<open>/a\<close>; the client is closed by the framework's close.
\<close>

theorem one_dial_one_close_per_completed_run_witness:
  "\<exists>client fr args c' t' bg c'' t'' c2 t2 err.
     Test_setup 15000000000 (fresh_harness None) \<lparr>failed = False, logged = []\<rparr> callback_get = Inr (client, fr)
     \<and> those (f_args fr) = Some args
     \<and> body callback_get args (f_c fr) (f_t fr) = Returned c' t' bg
     \<and> (if f_waiting fr then wg_Wait bg (c', t') else (True, c', t')) = (True, c'', t'')
     \<and> \<not> events_closed c''
     \<and> ExpectedCalls (dialer c'') = ExpectedCalls (dialer (f_c fr))
     \<and> Calls (dialer c'') = Calls (dialer (f_c fr))
     \<and> \<not> list_ex (\<lambda>e. Method e = ''Close'') (ExpectedCalls (conn c''))
     \<and> client_Close client (c''\<lparr>conn := Once (Return (On (conn c'') ''Close'' []) [])\<rparr>) t''
          = ((c2, t2), Inr err)
     \<and> \<not> events_closed c2
     \<and> mzc (Test_call_with client_Close client callback_get fr) = c2\<lparr>events_closed := True\<rparr>
     \<and> outcome (harness_run 15000000000 \<lparr>failed = False, logged = []\<rparr> None callback_get) = Completed
     \<and> events_closed (mzc (harness_run 15000000000 \<lparr>failed = False, logged = []\<rparr> None callback_get))"
proof -
  define client where "client = Build (builder (fresh_harness None))"
  define fr where "fr = resolve client 0 (params callback_get)
            \<lparr>f_args = replicate (length (params callback_get)) None,
             f_c = fst (fst (Test_start 15000000000 (fresh_harness None) \<lparr>failed = False, logged = []\<rparr>)),
             f_t = snd (fst (Test_start 15000000000 (fresh_harness None) \<lparr>failed = False, logged = []\<rparr>)),
             f_waiting = False,
             f_steps = [SetLogHooks, BuildClient, ProgramDial, StartClient]\<rparr>"
  have su: "Test_setup 15000000000 (fresh_harness None) \<lparr>failed = False, logged = []\<rparr> callback_get = Inr (client, fr)"
    unfolding client_def fr_def by (rule Test_setup_frame [OF fresh_dialer])
  have "\<exists>args c' t'. those (f_args fr) = Some args
      \<and> body callback_get args (f_c fr) (f_t fr) = Returned c' t' []
      \<and> \<not> f_waiting fr \<and> \<not> events_closed c'
      \<and> ExpectedCalls (dialer c') = ExpectedCalls (dialer (f_c fr))
      \<and> Calls (dialer c') = Calls (dialer (f_c fr))
      \<and> \<not> list_ex (\<lambda>e. Method e = ''Close'') (ExpectedCalls (conn c'))"
    by (simp add: fr_def client_def callback_get_def start_defs eval_defs)
  then obtain args c' t' where ar: "those (f_args fr) = Some args"
    and ret: "body callback_get args (f_c fr) (f_t fr) = Returned c' t' []"
    and nw: "\<not> f_waiting fr" and op: "\<not> events_closed c'"
    and de: "ExpectedCalls (dialer c') = ExpectedCalls (dialer (f_c fr))"
    and dc: "Calls (dialer c') = Calls (dialer (f_c fr))"
    and nc: "\<not> list_ex (\<lambda>e. Method e = ''Close'') (ExpectedCalls (conn c'))"
    by blast
  have wt: "(if f_waiting fr then wg_Wait [] (c', t') else (True, c', t')) = (True, c', t')"
    using nw by simp
  define c2 where "c2 = c'\<lparr>conn := (conn c')\<lparr>ExpectedCalls := ExpectedCalls (conn c') @ [close_expectation\<lparr>totalCalls := 1\<rparr>],
                                        Calls := Calls (conn c') @ [(''Close'', [])]\<rparr>\<rparr>"
  have cl: "client_Close client (c'\<lparr>conn := Once (Return (On (conn c') ''Close'' []) [])\<rparr>) t'
          = ((c2, t'), Inr None)"
    unfolding c2_def by (rule client_Close_programmed [OF nc])
  have op2: "\<not> events_closed c2" using op by (simp add: c2_def)
  note th = one_dial_one_close_per_completed_run [where close = client_Close, OF su ar ret wt op de dc nc cl op2]
  from th have m: "mzc (Test_call_with client_Close client callback_get fr) = c2\<lparr>events_closed := True\<rparr>"
    by simp
  from th have o: "outcome (harness_run 15000000000 \<lparr>failed = False, logged = []\<rparr> None callback_get) = Completed"
    and e: "events_closed (mzc (harness_run 15000000000 \<lparr>failed = False, logged = []\<rparr> None callback_get))"
    by blast+
  show ?thesis
    by (intro exI conjI) (rule su ar ret wt op de dc nc cl op2 m o e)+
qed

text \<open>
  C2 as the specification states it, for a run with any callback, fails when the callback
  panics: a callback that calls \<^verbatim>\<open>Get("/a")\<close> with nothing programmed is failed by the
  substrate, the panic leaves \<^verbatim>\<open>Test\<close> at line 426, and no \<^verbatim>\<open>Close\<close> expectation is
  programmed, the client is not closed and the event channel stays open.
\<close>

theorem panicking_callback_counterexample:
  "outcome (harness_run 15000000000 \<lparr>failed = False, logged = []\<rparr> None callback_unprogrammed_get)
     = Aborted (Unprogrammed ''Get'' [VString ''/a''])
   \<and> ExpectedCalls (conn (mzc (harness_run 15000000000 \<lparr>failed = False, logged = []\<rparr> None
         callback_unprogrammed_get))) = []
   \<and> ProgramClose \<notin> set (steps (harness_run 15000000000 \<lparr>failed = False, logged = []\<rparr> None
         callback_unprogrammed_get))
   \<and> CloseEvents \<notin> set (steps (harness_run 15000000000 \<lparr>failed = False, logged = []\<rparr> None
         callback_unprogrammed_get))
   \<and> \<not> events_closed (mzc (harness_run 15000000000 \<lparr>failed = False, logged = []\<rparr> None
         callback_unprogrammed_get))"
  by (simp add: run_defs callback_unprogrammed_get_def mockConn_Get_def)

text \<open>
  C4, as the code has it. In every harness run on a new orchestrator the loop over the
  callback's parameters registers one unit of pending work for each completion-signal
  parameter, all before the callback is invoked: the counter the callback starts with is
  the number of such parameters (one when there is one). When the callback returns and
  declared such a parameter, the orchestrator waits: it goes on to program the
  \<^verbatim>\<open>Close\<close> expectation and close the client only from a state whose counter is zero,
  and a wait that never ends leaves the run blocked with neither done. When the callback
  declared no such parameter the teardown starts from the state the callback returned,
  with no wait.
\<close>

theorem pending_work_registered_and_awaited:
  assumes su: "Test_setup dct (fresh_harness ns) t cb = Inr (client, fr)"
      and ar: "those (f_args fr) = Some args"
      and ret: "body cb args (f_c fr) (f_t fr) = Returned c' t' bg"
  shows "wg (f_c fr) = int (count_list (params cb) T_ptr_sync_WaitGroup)
       \<and> count_list (steps (harness_run dct t ns cb)) RegisterPending
           = count_list (params cb) T_ptr_sync_WaitGroup
       \<and> (if T_ptr_sync_WaitGroup \<in> set (params cb)
          then precedes RegisterPending CallbackInvoked (steps (harness_run dct t ns cb))
             \<and> (case wg_Wait bg (c', t') of
                  (True, c'', t'') \<Rightarrow>
                    wg c'' = 0
                    \<and> harness_run dct t ns cb =
                        Test_teardown client c'' t''
                          (f_steps fr @ [CallbackInvoked, CallbackReturned, AwaitCompletion])
                    \<and> precedes AwaitCompletion ProgramClose (steps (harness_run dct t ns cb))
                | (False, c'', t'') \<Rightarrow>
                    outcome (harness_run dct t ns cb) = Blocked
                    \<and> ProgramClose \<notin> set (steps (harness_run dct t ns cb))
                    \<and> CloseClient \<notin> set (steps (harness_run dct t ns cb)))
          else harness_run dct t ns cb =
                 Test_teardown client c' t' (f_steps fr @ [CallbackInvoked, CallbackReturned])
             \<and> AwaitCompletion \<notin> set (steps (harness_run dct t ns cb)))"
proof -
  note ff = fresh_frame [OF su]
  let ?pre = "[SetLogHooks, BuildClient, ProgramDial, StartClient] @ resolution_steps (params cb)"
  have run: "harness_run dct t ns cb =
     (if f_waiting fr then
        (case wg_Wait bg (c', t') of
           (False, c'', t'') \<Rightarrow>
             \<lparr>mzc = c'', tT = t'', steps = f_steps fr @ [CallbackInvoked, CallbackReturned], outcome = Blocked\<rparr>
         | (True, c'', t'') \<Rightarrow>
             Test_teardown client c'' t'' (f_steps fr @ [CallbackInvoked, CallbackReturned, AwaitCompletion]))
      else Test_teardown client c' t' (f_steps fr @ [CallbackInvoked, CallbackReturned]))"
    by (simp only: ff(7) Test_call_returned [OF ar ret])
  have only: "set (resolution_steps (params cb)) \<subseteq> {RegisterPending, ReportUnknownType}"
    by (rule resolution_steps_only)
  obtain w c'' t'' where w: "wg_Wait bg (c', t') = (w, c'', t'')"
    by (cases "wg_Wait bg (c', t')") auto
  obtain r1 where r1: "steps (Test_teardown client c' t' (f_steps fr @ [CallbackInvoked, CallbackReturned]))
      = (f_steps fr @ [CallbackInvoked, CallbackReturned]) @ ProgramClose # r1"
      "set r1 \<subseteq> {CloseClient, CloseEvents, AssertAll}"
    using Test_teardown_steps_form by blast
  obtain r2 where r2: "steps (Test_teardown client c'' t'' (f_steps fr @ [CallbackInvoked, CallbackReturned, AwaitCompletion]))
      = (f_steps fr @ [CallbackInvoked, CallbackReturned, AwaitCompletion]) @ ProgramClose # r2"
      "set r2 \<subseteq> {CloseClient, CloseEvents, AssertAll}"
    using Test_teardown_steps_form by blast
  have c1: "count_list r1 RegisterPending = 0" "AwaitCompletion \<notin> set r1"
    using r1(2) by (auto simp add: count_list_0_iff)
  have c2: "count_list r2 RegisterPending = 0"
    using r2(2) by (auto simp add: count_list_0_iff)
  have cf: "count_list (f_steps fr) RegisterPending = count_list (params cb) T_ptr_sync_WaitGroup"
    by (simp add: ff(2) count_list_resolution_steps)
  have sf: "AwaitCompletion \<notin> set (f_steps fr)" "ProgramClose \<notin> set (f_steps fr)"
    "CloseClient \<notin> set (f_steps fr)" "CallbackInvoked \<notin> set (f_steps fr)"
    using only by (auto simp add: ff(2))
  have count: "count_list (steps (harness_run dct t ns cb)) RegisterPending
           = count_list (params cb) T_ptr_sync_WaitGroup"
    by (cases w) (simp_all add: run w r1 r2 c1 c2 cf)
  show ?thesis
  proof (cases "T_ptr_sync_WaitGroup \<in> set (params cb)")
    case False
    then have nw: "\<not> f_waiting fr" by (simp add: ff(3))
    have "AwaitCompletion \<notin> set (steps (harness_run dct t ns cb))"
      using c1(2) sf by (simp add: run nw r1)
    then show ?thesis
      using False count by (simp add: ff(4) run nw)
  next
    case True
    then have wt: "f_waiting fr" by (simp add: ff(3))
    have reg: "RegisterPending \<in> set ?pre" "CallbackInvoked \<notin> set ?pre"
      using True only by (auto simp add: RegisterPending_resolution_steps)
    have pre: "prefix ?pre (steps (harness_run dct t ns cb))"
      by (rule harness_run_steps)
    have p1: "precedes RegisterPending CallbackInvoked (steps (harness_run dct t ns cb))"
      using precedes_prefix [OF precedes_append [OF reg, of "[]"]] pre by simp
    show ?thesis
    proof (cases w)
      case True
      have z: "wg c'' = 0" using wg_Wait_zero [of bg "(c', t')" "(c'', t'')"] w True by simp
      have aw: "AwaitCompletion \<in> set (f_steps fr @ [CallbackInvoked, CallbackReturned, AwaitCompletion])"
        "ProgramClose \<notin> set (f_steps fr @ [CallbackInvoked, CallbackReturned, AwaitCompletion])"
        using sf by simp_all
      have p2: "precedes AwaitCompletion ProgramClose (steps (harness_run dct t ns cb))"
        using precedes_append [OF aw, of "ProgramClose # r2"] by (simp add: run wt w True r2)
      show ?thesis
        using \<open>T_ptr_sync_WaitGroup \<in> set (params cb)\<close> count p1 p2 z
        by (simp add: ff(4) run wt w True)
    next
      case False
      have "ProgramClose \<notin> set (steps (harness_run dct t ns cb))"
        "CloseClient \<notin> set (steps (harness_run dct t ns cb))"
        using sf by (simp_all add: run wt w False)
      then show ?thesis
        using \<open>T_ptr_sync_WaitGroup \<in> set (params cb)\<close> count p1
        by (simp add: ff(4) run wt w False)
    qed
  qed
qed

text \<open>
  An instance, the specification's scenario: the callback declares the handle, and its
  background work reads three children and then marks the unit done; the wait ends and
  the teardown follows it.
\<close>

theorem pending_work_registered_and_awaited_witness:
  "\<exists>client fr args c' t' bg.
     Test_setup 15000000000 (fresh_harness None) \<lparr>failed = False, logged = []\<rparr> callback_children_in_background = Inr (client, fr)
     \<and> those (f_args fr) = Some args
     \<and> body callback_children_in_background args (f_c fr) (f_t fr) = Returned c' t' bg
     \<and> wg (f_c fr) = 1
     \<and> fst (wg_Wait bg (c', t'))
     \<and> precedes RegisterPending CallbackInvoked
          (steps (harness_run 15000000000 \<lparr>failed = False, logged = []\<rparr> None callback_children_in_background))
     \<and> precedes AwaitCompletion ProgramClose
          (steps (harness_run 15000000000 \<lparr>failed = False, logged = []\<rparr> None callback_children_in_background))"
proof -
  define client where "client = Build (builder (fresh_harness None))"
  define fr where "fr = resolve client 0 (params callback_children_in_background)
            \<lparr>f_args = replicate (length (params callback_children_in_background)) None,
             f_c = fst (fst (Test_start 15000000000 (fresh_harness None) \<lparr>failed = False, logged = []\<rparr>)),
             f_t = snd (fst (Test_start 15000000000 (fresh_harness None) \<lparr>failed = False, logged = []\<rparr>)),
             f_waiting = False,
             f_steps = [SetLogHooks, BuildClient, ProgramDial, StartClient]\<rparr>"
  have su: "Test_setup 15000000000 (fresh_harness None) \<lparr>failed = False, logged = []\<rparr> callback_children_in_background = Inr (client, fr)"
    unfolding client_def fr_def by (rule Test_setup_frame [OF fresh_dialer])
  have "\<exists>args c' t' bg. those (f_args fr) = Some args
      \<and> body callback_children_in_background args (f_c fr) (f_t fr) = Returned c' t' bg
      \<and> fst (wg_Wait bg (c', t'))"
    by (simp add: fr_def client_def callback_children_in_background_def start_defs eval_defs)
  then obtain args c' t' bg where ar: "those (f_args fr) = Some args"
    and ret: "body callback_children_in_background args (f_c fr) (f_t fr) = Returned c' t' bg"
    and w: "fst (wg_Wait bg (c', t'))"
    by blast
  have wgp: "T_ptr_sync_WaitGroup \<in> set (params callback_children_in_background)"
    "count_list (params callback_children_in_background) T_ptr_sync_WaitGroup = 1"
    by (simp_all add: callback_children_in_background_def)
  obtain c'' t'' where w': "wg_Wait bg (c', t') = (True, c'', t'')"
    using w by (cases "wg_Wait bg (c', t')") auto
  note th = pending_work_registered_and_awaited [OF su ar ret]
  note th' = th [simplified wgp if_True w' prod.case bool.case]
  from th' have one: "wg (f_c fr) = 1"
    by simp
  from th' have p1: "precedes RegisterPending CallbackInvoked
          (steps (harness_run 15000000000 \<lparr>failed = False, logged = []\<rparr> None callback_children_in_background))"
    and p2: "precedes AwaitCompletion ProgramClose
          (steps (harness_run 15000000000 \<lparr>failed = False, logged = []\<rparr> None callback_children_in_background))"
    by blast+
  show ?thesis
    by (intro exI conjI) (rule su ar ret one w p1 p2)+
qed

text \<open>
  C4 as the specification states it, exactly one pending unit for a callback that
  declares a completion-signal handle, fails when the handle is declared twice:
  \<^verbatim>\<open>func(a, b *sync.WaitGroup)\<close> starts with two units registered, and a callback that
  returns without marking them leaves the run blocked with the counter at two.
\<close>

theorem two_completion_handles_counterexample:
  "count_list (steps (harness_run 15000000000 \<lparr>failed = False, logged = []\<rparr> None callback_two_wait_groups))
      RegisterPending = 2
   \<and> wg (mzc (harness_run 15000000000 \<lparr>failed = False, logged = []\<rparr> None callback_two_wait_groups)) = 2
   \<and> outcome (harness_run 15000000000 \<lparr>failed = False, logged = []\<rparr> None callback_two_wait_groups) = Blocked"
  by (simp add: run_defs callback_two_wait_groups_def)

end
